theory Spec2Isabelle
  imports
    Complex_Main
    "HOL-Library.Sublist"
    "HOL-Library.Char_ord"
    "HOL-Library.List_Lexorder"
begin

section \<open>Conventions of the embedding\<close>

text \<open>
  The development embeds the two Python modules of the repository,
  \<^verbatim>\<open>src/extract_events.py\<close> (the extractor) and \<^verbatim>\<open>src/analyzer.py\<close>
  (the metrics and report engine).

  \<^item> Python \<^verbatim>\<open>int\<close> is \<^typ>\<open>int\<close>. Python and NumPy floats are idealised as
    \<^typ>\<open>real\<close>: arithmetic is exact, and a computation that would give
    \<^verbatim>\<open>inf\<close> or \<^verbatim>\<open>nan\<close> in the source is a separate branch of the model.
  \<^item> Python \<^verbatim>\<open>str\<close> is \<^typ>\<open>string\<close>; characters are bytes, so the model is the
    source on ASCII text.
  \<^item> A raised exception is \<open>Inl\<close> of a \<open>py_error\<close>; \<^verbatim>\<open>None\<close> is \<open>None\<close>.
\<close>

datatype py_error =
    ValueError
  | TypeError
  | KeyError
  | ZeroDivisionError
  | NonFinite
      \<comment> \<open>not an exception of the source: the source goes on with \<^verbatim>\<open>inf\<close> or
          \<^verbatim>\<open>nan\<close> here, which the real-valued embedding does not represent\<close>

subsection \<open>Built-ins of Python and NumPy\<close>

text \<open>
  \<^verbatim>\<open>round(x, n)\<close>: the value of \<open>x\<close> to \<open>n\<close> decimals, ties to the even neighbour.
  The model rounds the exact number, the source the binary float that stands for it.
\<close>

definition py_round :: "nat \<Rightarrow> real \<Rightarrow> real" where
  "py_round n x =
     (let y = x * 10 ^ n; f = \<lfloor>y\<rfloor>; d = y - of_int f
      in of_int (if d < 1 / 2 then f
                 else if 1 / 2 < d then f + 1
                 else if even f then f else f + 1) / 10 ^ n)"

text \<open>\<^verbatim>\<open>np.mean\<close> and \<^verbatim>\<open>np.std\<close> (population standard deviation) of a non-empty list.\<close>

definition np_mean :: "real list \<Rightarrow> real" where
  "np_mean xs = sum_list xs / real (length xs)"

definition np_std :: "real list \<Rightarrow> real" where
  "np_std xs = sqrt (np_mean (map (\<lambda>x. (x - np_mean xs)\<^sup>2) xs))"

text \<open>\<^verbatim>\<open>needle in hay\<close> on strings.\<close>

fun contains :: "string \<Rightarrow> string \<Rightarrow> bool" where
  "contains needle [] = (needle = [])"
| "contains needle (c # cs) = (prefix needle (c # cs) \<or> contains needle cs)"

text \<open>\<^verbatim>\<open>str.upper\<close> and \<^verbatim>\<open>str.lower\<close> on ASCII letters.\<close>

definition upper_char :: "char \<Rightarrow> char" where
  "upper_char c =
     (case map_of (zip ''abcdefghijklmnopqrstuvwxyz'' ''ABCDEFGHIJKLMNOPQRSTUVWXYZ'') c of
        Some u \<Rightarrow> u
      | None \<Rightarrow> c)"

definition lower_char :: "char \<Rightarrow> char" where
  "lower_char c =
     (case map_of (zip ''ABCDEFGHIJKLMNOPQRSTUVWXYZ'' ''abcdefghijklmnopqrstuvwxyz'') c of
        Some l \<Rightarrow> l
      | None \<Rightarrow> c)"

definition upper :: "string \<Rightarrow> string" where
  "upper s = map upper_char s"

definition lower :: "string \<Rightarrow> string" where
  "lower s = map lower_char s"

section \<open>The metrics engine: \<^verbatim>\<open>analyzer.py\<close>\<close>

subsection \<open>Documents\<close>

text \<open>One entry of \<^verbatim>\<open>summary['events']\<close> (lines 117-128).\<close>

record event_detail =
  ev_name :: string
  ev_type :: string
  ev_date :: string
  ev_expected :: int
  ev_actual :: int
  ev_attendance_rate :: real
  ev_budget :: "real option"
  ev_cost_per_attendee :: "real option"

datatype grade = A_plus | A | A_minus | B_plus | B | B_minus | C_plus | C | C_minus | D

text \<open>The \<^verbatim>\<open>breakdown\<close> dictionary has the four fixed keys.\<close>

record breakdown =
  attendance :: real
  consistency :: real
  growth :: real
  efficiency :: real

record engagement =
  score :: real
  grade :: grade
  breakdown :: breakdown

text \<open>
  The summary dictionary of \<^verbatim>\<open>prepare_data_summary\<close>. A key that the source sets only
  under a condition is an option.
\<close>

record summary =
  total_events :: int
  date_range :: string
  event_types :: "string \<rightharpoonup> int"
  avg_attendance :: real
  total_attendees :: int
  total_registered :: int
  attendance_rate :: real
  total_budget :: "real option"
  avg_budget_per_event :: "real option"
  cost_per_attendee :: "real option"
  avg_cost_per_attendee :: "real option"
  best_performing_event :: string
  highest_attendance :: int
  best_conversion_event :: string
  best_conversion_rate :: real
  events :: "event_detail list"
  demographics :: "(string \<times> int) list option"
  engagement_score :: "engagement option"

subsection \<open>\<^verbatim>\<open>calculate_engagement_score\<close> (lines 144-249)\<close>

text \<open>Lines 157-165: the attendance component.\<close>

definition att_score :: "real \<Rightarrow> real" where
  "att_score att_rate =
     (if att_rate \<ge> 85 then 40
      else if att_rate \<ge> 75 then 30 + (att_rate - 75) * 1
      else if att_rate \<ge> 65 then 20 + (att_rate - 65) * 1
      else max 0 (att_rate * 0.3))"

text \<open>Lines 171-180: the consistency component, from the per-event rates.\<close>

definition consistency_score :: "real list \<Rightarrow> real" where
  "consistency_score rates =
     (if length rates > 1 then max 0 (20 - np_std rates) else 15)"

text \<open>
  Lines 184-200: the growth component. \<^verbatim>\<open>sorted\<close> is stable, as \<open>sort_key\<close> is.
  In the decline branch a first-half mean of zero makes \<^verbatim>\<open>decline_pct\<close> the float
  \<^verbatim>\<open>inf\<close> (the means are NumPy floats, the second-half mean being negative there),
  and \<^verbatim>\<open>max(0, 10 - inf * 0.5)\<close> is 0.
\<close>

definition growth_score :: "event_detail list \<Rightarrow> real" where
  "growth_score evs =
     (let sorted_events = sort_key ev_date evs in
      if length sorted_events \<ge> 2 then
        let mid = length sorted_events div 2;
            first_half_avg = np_mean (map (\<lambda>e. real_of_int (ev_actual e)) (take mid sorted_events));
            second_half_avg = np_mean (map (\<lambda>e. real_of_int (ev_actual e)) (drop mid sorted_events))
        in if second_half_avg \<ge> first_half_avg then
             let growth_pct =
                   (if first_half_avg > 0
                    then ((second_half_avg - first_half_avg) / first_half_avg) * 100 else 0)
             in min 20 (10 + growth_pct * 0.5)
           else if first_half_avg = 0 then 0
           else
             let decline_pct = ((first_half_avg - second_half_avg) / first_half_avg) * 100
             in max 0 (10 - decline_pct * 0.5)
      else 10)"

text \<open>Lines 206-215: the efficiency curve at a positive cost per attendee.\<close>

definition eff_score :: "real \<Rightarrow> real" where
  "eff_score cpa =
     (if cpa \<le> 3 then 20
      else if cpa \<le> 5 then 18
      else if cpa \<le> 10 then 15
      else if cpa \<le> 20 then 10
      else max 0 (20 - cpa * 0.3))"

text \<open>Lines 203-221: the efficiency component.\<close>

definition efficiency_score :: "real option \<Rightarrow> real" where
  "efficiency_score c =
     (case c of
        Some cpa \<Rightarrow> if cpa > 0 then eff_score cpa else 12
      | None \<Rightarrow> 12)"

text \<open>Lines 224-243: the grade of the (unrounded) score.\<close>

definition grade_of :: "real \<Rightarrow> grade" where
  "grade_of s =
     (if s \<ge> 90 then A_plus
      else if s \<ge> 85 then A
      else if s \<ge> 80 then A_minus
      else if s \<ge> 75 then B_plus
      else if s \<ge> 70 then B
      else if s \<ge> 65 then B_minus
      else if s \<ge> 60 then C_plus
      else if s \<ge> 55 then C
      else if s \<ge> 50 then C_minus
      else D)"

text \<open>
  The sum of the four components: the variable \<^verbatim>\<open>score\<close> at line 223, in exact
  arithmetic. The source adds binary floats, so where the exact sum is a whole number
  its accumulated value can lie just below or above it.
\<close>

definition raw_score :: "summary \<Rightarrow> real" where
  "raw_score s =
     att_score (attendance_rate s)
     + consistency_score (map ev_attendance_rate (events s))
     + growth_score (events s)
     + efficiency_score (cost_per_attendee s)"

text \<open>
  Lines 223-249: the end of the method, from the accumulated value \<open>acc\<close> of the
  variable \<^verbatim>\<open>score\<close> and the dictionary \<open>bd\<close> of the components. The grade is
  taken from the accumulated value; the score returned is that value rounded.
\<close>

definition grade_and_return :: "real \<Rightarrow> breakdown \<Rightarrow> engagement" where
  "grade_and_return acc bd =
     \<lparr> score = py_round 1 acc, grade = grade_of acc, breakdown = bd \<rparr>"

text \<open>
  The method itself. Its parameter \<^verbatim>\<open>df\<close> is not used by the body; the model keeps
  it, with the type of the data frame left open.
\<close>

definition calculate_engagement_score :: "'df \<Rightarrow> summary \<Rightarrow> engagement" where
  "calculate_engagement_score df s =
     grade_and_return (raw_score s)
       \<lparr> attendance = py_round 1 (att_score (attendance_rate s)),
         consistency =
           (if length (events s) > 1
            then py_round 1 (consistency_score (map ev_attendance_rate (events s))) else 15),
         growth =
           (if length (events s) \<ge> 2 then py_round 1 (growth_score (events s)) else 10),
         efficiency =
           (case cost_per_attendee s of
              Some cpa \<Rightarrow> if cpa > 0 then py_round 1 (eff_score cpa) else 12
            | None \<Rightarrow> 12) \<rparr>"

subsection \<open>The data frame of the normalized dataset\<close>

text \<open>
  A \<^verbatim>\<open>Timestamp\<close> of the \<^verbatim>\<open>Date\<close> column, by its calendar date (the time of day is
  not modelled; no format of the source prints it).
\<close>

record date =
  year :: nat
  month :: nat
  day :: nat

text \<open>
  One row of the \<^verbatim>\<open>Events\<close> sheet as pandas reads it. A blank cell is \<^verbatim>\<open>NaN\<close>
  (\<^verbatim>\<open>NaT\<close> in the date column), here \<open>None\<close>. A frame with no \<^verbatim>\<open>Total Budget\<close>
  column behaves as one whose budgets are all blank: the source reads the column only
  behind \<^verbatim>\<open>'Total Budget' in df.columns\<close> or through \<^verbatim>\<open>row.get\<close>.
\<close>

record event_row =
  col_Event_Name :: string
  col_Date :: "date option"
  col_Event_Type :: string
  col_Expected_Attendance :: "int option"
  col_Actual_Attendance :: "int option"
  col_Total_Budget :: "real option"

type_synonym dataframe = "event_row list"

subsection \<open>pandas column operations\<close>

text \<open>The values of a column that are not \<^verbatim>\<open>NaN\<close>, in order.\<close>

definition dropna :: "'a option list \<Rightarrow> 'a list" where
  "dropna xs = concat (map (\<lambda>x. case x of Some v \<Rightarrow> [v] | None \<Rightarrow> []) xs)"

text \<open>\<^verbatim>\<open>Series.sum\<close> skips \<^verbatim>\<open>NaN\<close>; the sum of nothing is 0.\<close>

definition col_sum :: "('a::monoid_add) option list \<Rightarrow> 'a" where
  "col_sum xs = sum_list (dropna xs)"

text \<open>\<^verbatim>\<open>Series.max\<close> and \<^verbatim>\<open>Series.min\<close> skip \<^verbatim>\<open>NaN\<close>; of nothing they are \<^verbatim>\<open>NaN\<close>.\<close>

definition col_max :: "('a::linorder) option list \<Rightarrow> 'a option" where
  "col_max xs = (case dropna xs of [] \<Rightarrow> None | v # vs \<Rightarrow> Some (fold max vs v))"

definition col_min :: "('a::linorder) option list \<Rightarrow> 'a option" where
  "col_min xs = (case dropna xs of [] \<Rightarrow> None | v # vs \<Rightarrow> Some (fold min vs v))"

text \<open>
  \<^verbatim>\<open>Series.idxmax\<close>: the label of the first occurrence of the maximum, \<^verbatim>\<open>NaN\<close>
  skipped. The frame carries the default index, so the label is the position.
\<close>

fun idxmax_from :: "nat \<Rightarrow> ('a::linorder) option list \<Rightarrow> (nat \<times> 'a) option \<Rightarrow> (nat \<times> 'a) option" where
  "idxmax_from i [] best = best"
| "idxmax_from i (None # xs) best = idxmax_from (Suc i) xs best"
| "idxmax_from i (Some v # xs) best =
     idxmax_from (Suc i) xs
       (case best of
          None \<Rightarrow> Some (i, v)
        | Some (k, b) \<Rightarrow> if b < v then Some (i, v) else Some (k, b))"

definition idxmax :: "('a::linorder) option list \<Rightarrow> nat option" where
  "idxmax xs = map_option fst (idxmax_from 0 xs None)"

text \<open>\<^verbatim>\<open>Series.unique\<close>: the distinct values in order of first appearance.\<close>

definition unique :: "'a list \<Rightarrow> 'a list" where
  "unique xs = rev (remdups (rev xs))"

subsection \<open>Date formats\<close>

function show_nat :: "nat \<Rightarrow> string" where
  "show_nat n =
     (if n < 10 then [''0123456789'' ! n]
      else show_nat (n div 10) @ [''0123456789'' ! (n mod 10)])"
  by pat_completeness auto
termination
  by (relation "measure id") auto

declare show_nat.simps [simp del]

definition zero_pad :: "nat \<Rightarrow> string \<Rightarrow> string" where
  "zero_pad w s = replicate (w - length s) CHR ''0'' @ s"

text \<open>\<^verbatim>\<open>%b\<close>; the month of a \<^verbatim>\<open>Timestamp\<close> is between 1 and 12.\<close>

definition month_abbr :: "nat \<Rightarrow> string" where
  "month_abbr m =
     (if 1 \<le> m \<and> m \<le> 12
      then [''Jan'', ''Feb'', ''Mar'', ''Apr'', ''May'', ''Jun'',
            ''Jul'', ''Aug'', ''Sep'', ''Oct'', ''Nov'', ''Dec''] ! (m - 1)
      else [])"

text \<open>\<^verbatim>\<open>strftime('%b %Y')\<close> and \<^verbatim>\<open>strftime('%Y-%m-%d')\<close>.\<close>

definition strftime_b_Y :: "date \<Rightarrow> string" where
  "strftime_b_Y d = month_abbr (month d) @ '' '' @ zero_pad 4 (show_nat (year d))"

definition strftime_Y_m_d :: "date \<Rightarrow> string" where
  "strftime_Y_m_d d =
     zero_pad 4 (show_nat (year d)) @ ''-'' @ zero_pad 2 (show_nat (month d))
       @ ''-'' @ zero_pad 2 (show_nat (day d))"

text \<open>Dates compare by year, then month, then day.\<close>

definition date_key :: "date \<Rightarrow> nat list" where
  "date_key d = [year d, month d, day d]"

definition date_min :: "date \<Rightarrow> date \<Rightarrow> date" where
  "date_min a b = (if date_key b < date_key a then b else a)"

definition date_max :: "date \<Rightarrow> date \<Rightarrow> date" where
  "date_max a b = (if date_key a < date_key b then b else a)"


subsection \<open>Method calls\<close>

text \<open>
  A call binds its arguments to the parameters of the method; a call with too few or
  too many positional arguments raises \<^verbatim>\<open>TypeError\<close> before the body runs.
  The arguments of \<^verbatim>\<open>calculate_engagement_score(self, df, summary)\<close> at its call
  sites are data frames and summary dictionaries.
\<close>

datatype pyval = DataFrameV dataframe | SummaryV summary

text \<open>
  The body subscripts \<^verbatim>\<open>summary\<close> with the string keys of the dictionary; on a data
  frame in that position the first subscript, \<^verbatim>\<open>summary['attendance_rate']\<close>, is a
  column lookup that fails with \<^verbatim>\<open>KeyError\<close>.
\<close>

definition call_calculate_engagement_score :: "pyval list \<Rightarrow> py_error + engagement" where
  "call_calculate_engagement_score args =
     (case args of
        [df, SummaryV s] \<Rightarrow> Inr (calculate_engagement_score df s)
      | [df, DataFrameV _] \<Rightarrow> Inl KeyError
      | _ \<Rightarrow> Inl TypeError)"

subsection \<open>\<^verbatim>\<open>prepare_data_summary\<close> (lines 76-142)\<close>

text \<open>Line 82. \<^verbatim>\<open>min\<close> of a column of \<^verbatim>\<open>NaT\<close> only is \<^verbatim>\<open>NaT\<close>, whose \<^verbatim>\<open>strftime\<close> raises.\<close>

definition date_range_of :: "dataframe \<Rightarrow> py_error + string" where
  "date_range_of df =
     (case dropna (map col_Date df) of
        [] \<Rightarrow> Inl ValueError
      | d # ds \<Rightarrow>
          Inr (strftime_b_Y (fold date_min ds d) @ '' to '' @ strftime_b_Y (fold date_max ds d)))"

text \<open>Line 83: \<^verbatim>\<open>value_counts().to_dict()\<close>.\<close>

definition value_counts :: "string list \<Rightarrow> (string \<rightharpoonup> int)" where
  "value_counts xs =
     (\<lambda>t. if t \<in> set xs then Some (int (length (filter (\<lambda>x. x = t) xs))) else None)"

text \<open>
  The optional financial keys of lines 91-102: total budget, average budget per event,
  cost per attendee, average cost per attendee.
\<close>

record financial =
  f_total_budget :: real
  f_avg_budget_per_event :: real
  f_cost_per_attendee :: real
  f_avg_cost_per_attendee :: real

definition financial_metrics :: "dataframe \<Rightarrow> py_error + financial option" where
  "financial_metrics df =
     (if dropna (map col_Total_Budget df) \<noteq> [] then
        let total_budget = col_sum (map col_Total_Budget df);
            events_with_budget = filter (\<lambda>r. col_Total_Budget r \<noteq> None) df
        in if col_sum (map col_Actual_Attendance df) = 0 then Inl NonFinite
           else if col_sum (map col_Actual_Attendance events_with_budget) = 0 then Inl NonFinite
           else Inr (Some
             \<lparr> f_total_budget = py_round 2 total_budget,
               f_avg_budget_per_event = py_round 2 (total_budget / real (length df)),
               f_cost_per_attendee =
                 py_round 2 (total_budget / real_of_int (col_sum (map col_Actual_Attendance df))),
               f_avg_cost_per_attendee =
                 py_round 2 (col_sum (map col_Total_Budget events_with_budget)
                   / real_of_int (col_sum (map col_Actual_Attendance events_with_budget))) \<rparr>)
      else Inr None)"

text \<open>
  Line 109: the new column \<^verbatim>\<open>Attendance Rate\<close>. A row that lacks one of the two
  numbers has \<^verbatim>\<open>NaN\<close>; a row with expected attendance 0 has \<^verbatim>\<open>inf\<close> or \<^verbatim>\<open>nan\<close>.
\<close>

fun attendance_rate_column :: "dataframe \<Rightarrow> py_error + real option list" where
  "attendance_rate_column [] = Inr []"
| "attendance_rate_column (r # rs) =
     (case attendance_rate_column rs of
        Inl e \<Rightarrow> Inl e
      | Inr rates \<Rightarrow>
          (case (col_Actual_Attendance r, col_Expected_Attendance r) of
             (Some a, Some e) \<Rightarrow>
               if e = 0 then Inl NonFinite
               else Inr (Some (real_of_int a / real_of_int e * 100) # rates)
           | _ \<Rightarrow> Inr (None # rates)))"

text \<open>
  Lines 117-128, one row. \<^verbatim>\<open>iterrows\<close> hands out Python scalars: \<^verbatim>\<open>strftime\<close> of
  \<^verbatim>\<open>NaT\<close> and \<^verbatim>\<open>int\<close> of \<^verbatim>\<open>NaN\<close> raise \<^verbatim>\<open>ValueError\<close>, a division by zero raises
  \<^verbatim>\<open>ZeroDivisionError\<close>.
\<close>

definition event_of_row :: "event_row \<Rightarrow> py_error + event_detail" where
  "event_of_row r =
     (case col_Date r of
        None \<Rightarrow> Inl ValueError
      | Some d \<Rightarrow>
     (case col_Expected_Attendance r of
        None \<Rightarrow> Inl ValueError
      | Some e \<Rightarrow>
     (case col_Actual_Attendance r of
        None \<Rightarrow> Inl ValueError
      | Some a \<Rightarrow>
          if e = 0 then Inl ZeroDivisionError
          else
            let event =
                  \<lparr> ev_name = col_Event_Name r,
                    ev_type = col_Event_Type r,
                    ev_date = strftime_Y_m_d d,
                    ev_expected = e,
                    ev_actual = a,
                    ev_attendance_rate = py_round 1 (real_of_int a / real_of_int e * 100),
                    ev_budget = None,
                    ev_cost_per_attendee = None \<rparr>
            in (case col_Total_Budget r of
                  None \<Rightarrow> Inr event
                | Some b \<Rightarrow>
                    if a = 0 then Inl ZeroDivisionError
                    else Inr (event
                      \<lparr> ev_budget := Some (py_round 2 b),
                        ev_cost_per_attendee := Some (py_round 2 (b / real_of_int a)) \<rparr>)))))"

text \<open>Lines 115-130: the loop over the rows; the first raise leaves it.\<close>

fun events_detail :: "dataframe \<Rightarrow> py_error + event_detail list" where
  "events_detail [] = Inr []"
| "events_detail (r # rs) =
     (case event_of_row r of
        Inl e \<Rightarrow> Inl e
      | Inr ev \<Rightarrow>
          (case events_detail rs of
             Inl e \<Rightarrow> Inl e
           | Inr evs \<Rightarrow> Inr (ev # evs)))"

text \<open>
  The method, statement by statement. \<open>demo\<close> is \<^verbatim>\<open>self.demographics\<close>. A mean of no
  values (line 84) and a ratio with denominator 0 (lines 87, 95, 101, 109) are
  \<open>NonFinite\<close>. \<^verbatim>\<open>idxmax\<close> of a column with no value raises (pandas 2 and later).
\<close>

definition prepare_data_summary ::
  "(string \<times> int) list option \<Rightarrow> dataframe \<Rightarrow> py_error + summary" where
  "prepare_data_summary demo df =
     (case date_range_of df of
        Inl e \<Rightarrow> Inl e
      | Inr date_rng \<Rightarrow>
     (let actual = map col_Actual_Attendance df;
          expected = map col_Expected_Attendance df
      in
      if dropna actual = [] then Inl NonFinite
      else if col_sum expected = 0 then Inl NonFinite
      else
     (case financial_metrics df of
        Inl e \<Rightarrow> Inl e
      | Inr fin \<Rightarrow>
     (case (idxmax actual, col_max actual) of
        (Some best, Some highest) \<Rightarrow>
     (case attendance_rate_column df of
        Inl e \<Rightarrow> Inl e
      | Inr rates \<Rightarrow>
     (case idxmax rates of
        None \<Rightarrow> Inl ValueError
      | Some best_rate_idx \<Rightarrow>
     (case rates ! best_rate_idx of
        None \<Rightarrow> Inl ValueError
      | Some best_rate \<Rightarrow>
     (case events_detail df of
        Inl e \<Rightarrow> Inl e
      | Inr details \<Rightarrow>
          let summary =
            \<lparr> total_events = int (length df),
              date_range = date_rng,
              event_types = value_counts (map col_Event_Type df),
              avg_attendance =
                py_round 1 (real_of_int (col_sum actual) / real (length (dropna actual))),
              total_attendees = col_sum actual,
              total_registered = col_sum expected,
              attendance_rate =
                py_round 1 (real_of_int (col_sum actual) / real_of_int (col_sum expected) * 100),
              total_budget = map_option f_total_budget fin,
              avg_budget_per_event = map_option f_avg_budget_per_event fin,
              cost_per_attendee = map_option f_cost_per_attendee fin,
              avg_cost_per_attendee = map_option f_avg_cost_per_attendee fin,
              best_performing_event = col_Event_Name (df ! best),
              highest_attendance = highest,
              best_conversion_event = col_Event_Name (df ! best_rate_idx),
              best_conversion_rate = py_round 1 best_rate,
              events = details,
              demographics =
                (case demo of
                   None \<Rightarrow> None
                 | Some d \<Rightarrow> if d = [] then None else Some (filter (\<lambda>(k, v). v > 0) d)),
              engagement_score = None \<rparr>
          in (case call_calculate_engagement_score [DataFrameV df, SummaryV summary] of
                Inl e \<Rightarrow> Inl e
              | Inr es \<Rightarrow> Inr (summary \<lparr> engagement_score := Some es \<rparr>))))))
      | _ \<Rightarrow> Inl ValueError))))"


subsection \<open>\<^verbatim>\<open>generate_predictions\<close> (lines 311-339)\<close>

record prediction =
  p_avg_attendance :: real
  p_attendance_rate :: real
  p_sample_size :: int
  p_min_attendance :: int
  p_max_attendance :: int
  p_avg_budget :: "real option"
  p_avg_cost_per_attendee :: "real option"

text \<open>Lines 316-335 for the rows \<open>type_data\<close> of one event type.\<close>

definition predict_type :: "dataframe \<Rightarrow> py_error + prediction" where
  "predict_type type_data =
     (let actual = map col_Actual_Attendance type_data;
          expected = map col_Expected_Attendance type_data
      in
      if dropna actual = [] then Inl NonFinite
      else if col_sum expected = 0 then Inl NonFinite
      else
     (case (col_min actual, col_max actual) of
        (Some lo, Some hi) \<Rightarrow>
          let pred =
                \<lparr> p_avg_attendance =
                    py_round 0 (real_of_int (col_sum actual) / real (length (dropna actual))),
                  p_attendance_rate =
                    py_round 1 (real_of_int (col_sum actual) / real_of_int (col_sum expected) * 100),
                  p_sample_size = int (length type_data),
                  p_min_attendance = lo,
                  p_max_attendance = hi,
                  p_avg_budget = None,
                  p_avg_cost_per_attendee = None \<rparr>;
              budget_data = filter (\<lambda>r. col_Total_Budget r \<noteq> None) type_data
          in if dropna (map col_Total_Budget type_data) \<noteq> [] \<and> length budget_data > 0 then
               if col_sum (map col_Actual_Attendance budget_data) = 0 then Inl NonFinite
               else Inr (pred
                 \<lparr> p_avg_budget :=
                     Some (py_round 2 (col_sum (map col_Total_Budget budget_data)
                       / real (length budget_data))),
                   p_avg_cost_per_attendee :=
                     Some (py_round 2 (col_sum (map col_Total_Budget budget_data)
                       / real_of_int (col_sum (map col_Actual_Attendance budget_data)))) \<rparr>)
             else Inr pred
      | _ \<Rightarrow> Inl ValueError))"

text \<open>The loop over \<^verbatim>\<open>df['Event Type'].unique()\<close>; the dictionary keeps that order.\<close>

fun predict_types :: "dataframe \<Rightarrow> string list \<Rightarrow> py_error + (string \<times> prediction) list" where
  "predict_types df [] = Inr []"
| "predict_types df (t # ts) =
     (case predict_type (filter (\<lambda>r. col_Event_Type r = t) df) of
        Inl e \<Rightarrow> Inl e
      | Inr pred \<Rightarrow>
          (case predict_types df ts of
             Inl e \<Rightarrow> Inl e
           | Inr preds \<Rightarrow> Inr ((t, pred) # preds)))"

definition generate_predictions :: "dataframe \<Rightarrow> py_error + (string \<times> prediction) list" where
  "generate_predictions df = predict_types df (unique (map col_Event_Type df))"

subsection \<open>The analyzer object and the world around it\<close>

text \<open>
  The request to the text-generation service. The prompt is a fixed template around
  the organization name, the serialized summary and the two optional section
  headings; the model keeps these four parts instead of the text.
  \<^verbatim>\<open>convert_to_serializable\<close> changes the NumPy and pandas scalars of a document to
  the Python ones, which are the same values here.
\<close>

record request =
  req_model :: string
  req_max_tokens :: nat
  req_org_name :: string
  req_summary :: summary
  req_budget_section :: bool
  req_demographics_section :: bool

text \<open>
  What \<^verbatim>\<open>client.chat.completions.create\<close> does: it raises (with a message), or it
  returns a response, given by the \<^verbatim>\<open>message.content\<close> of its choices; the content
  of a choice can be \<^verbatim>\<open>None\<close>.
\<close>

datatype api_result = Api_raises string | Api_response "string option list"

record analyzer =
  org_name :: string
  model :: string
  client :: "request \<Rightarrow> api_result"
  self_demographics :: "(string \<times> int) list option"

text \<open>
  The file \<^verbatim>\<open>data/compiled_events.xlsx\<close> as \<^verbatim>\<open>load_event_data\<close> sees it: with an
  \<^verbatim>\<open>Events\<close> sheet and the rows of a \<^verbatim>\<open>Demographics\<close> sheet, with an \<^verbatim>\<open>Events\<close>
  sheet only, without an \<^verbatim>\<open>Events\<close> sheet (the first sheet is read instead), or not
  readable as a workbook at all (with the message of the exception).
\<close>

datatype compiled_file =
    Events_and_demographics dataframe "(string \<times> int) list list"
  | Events_only dataframe
  | First_sheet dataframe
  | Unreadable string

text \<open>The persisted result document of \<^verbatim>\<open>save_results\<close>.\<close>

record result_document =
  r_timestamp :: string
  r_org_name :: string
  r_data_summary :: summary
  r_ai_insights :: string
  r_predictions :: "(string \<times> prediction) list"
  r_demographics :: "(string \<times> int) list option"
  r_engagement_score :: "engagement option"

text \<open>
  The world: the compiled workbooks and the result documents on disk, by path, and
  the failure messages printed so far. Of the console output the model keeps the
  lines that report a failure; banners, statistics and progress lines are left out.
\<close>

record world =
  workbooks :: "string \<rightharpoonup> compiled_file"
  results :: "string \<rightharpoonup> result_document"
  errors_printed :: "string list"

definition print_error :: "string \<Rightarrow> world \<Rightarrow> world" where
  "print_error line w = w \<lparr> errors_printed := errors_printed w @ [line] \<rparr>"

subsection \<open>\<^verbatim>\<open>load_event_data\<close> (lines 29-56)\<close>

definition load_event_data ::
  "analyzer \<Rightarrow> string \<Rightarrow> world \<Rightarrow> dataframe option \<times> analyzer \<times> world" where
  "load_event_data self filepath w =
     (case workbooks w filepath of
        None \<Rightarrow>
          (None, self,
           print_error ''Run 'python src/extract_events.py' first to compile event data''
             (print_error (''Error: File not found at '' @ filepath) w))
      | Some (Events_and_demographics df demo_rows) \<Rightarrow>
          (Some df,
           self \<lparr> self_demographics := (case demo_rows of [] \<Rightarrow> None | r # _ \<Rightarrow> Some r) \<rparr>,
           w)
      | Some (Events_only df) \<Rightarrow> (Some df, self \<lparr> self_demographics := None \<rparr>, w)
      | Some (First_sheet df) \<Rightarrow> (Some df, self \<lparr> self_demographics := None \<rparr>, w)
      | Some (Unreadable e) \<Rightarrow> (None, self, print_error (''Error loading file: '' @ e) w))"

subsection \<open>\<^verbatim>\<open>analyze_with_ai\<close> (lines 251-309)\<close>

text \<open>
  Every exception of the \<^verbatim>\<open>try\<close> block is caught, printed and turned into \<^verbatim>\<open>None\<close>:
  one raised by the service, and the \<^verbatim>\<open>IndexError\<close> of \<^verbatim>\<open>response.choices[0]\<close> on a
  response without choices.
\<close>

definition build_request :: "analyzer \<Rightarrow> summary \<Rightarrow> request" where
  "build_request self data_summary =
     \<lparr> req_model = model self,
       req_max_tokens = 3000,
       req_org_name = org_name self,
       req_summary = data_summary,
       req_budget_section = (total_budget data_summary \<noteq> None),
       req_demographics_section = (demographics data_summary \<noteq> None) \<rparr>"

definition analyze_with_ai :: "analyzer \<Rightarrow> summary \<Rightarrow> world \<Rightarrow> string option \<times> world" where
  "analyze_with_ai self data_summary w =
     (case client self (build_request self data_summary) of
        Api_raises e \<Rightarrow> (None, print_error (''Error calling OpenAI API: '' @ e) w)
      | Api_response [] \<Rightarrow>
          (None, print_error (''Error calling OpenAI API: '' @ ''list index out of range'') w)
      | Api_response (insights # _) \<Rightarrow> (insights, w))"

subsection \<open>\<^verbatim>\<open>save_results\<close> (lines 341-370)\<close>

text \<open>
  \<open>now\<close> is \<^verbatim>\<open>datetime.now().isoformat()\<close>. The call at line 357 passes one argument,
  \<^verbatim>\<open>data_summary\<close>, to \<^verbatim>\<open>calculate_engagement_score(self, df, summary)\<close>. The
  dictionary that call returns is not empty, so \<^verbatim>\<open>if engagement_score\<close> holds. An
  exception leaves the method with the world as it is at that point.
\<close>

definition save_results ::
  "analyzer \<Rightarrow> string \<Rightarrow> (string \<times> prediction) list \<Rightarrow> summary \<Rightarrow> string \<Rightarrow> world
     \<Rightarrow> (py_error \<times> world) + (string \<times> world)" where
  "save_results self insights predictions data_summary now w =
     (let results0 =
            \<lparr> r_timestamp = now,
              r_org_name = org_name self,
              r_data_summary = data_summary,
              r_ai_insights = insights,
              r_predictions = predictions,
              r_demographics = None,
              r_engagement_score = None \<rparr>;
          results1 =
            (case self_demographics self of
               None \<Rightarrow> results0
             | Some d \<Rightarrow> if d = [] then results0 else results0 \<lparr> r_demographics := Some d \<rparr>)
      in case call_calculate_engagement_score [SummaryV data_summary] of
           Inl e \<Rightarrow> Inl (e, w)
         | Inr es \<Rightarrow>
             let results2 = results1 \<lparr> r_engagement_score := Some es \<rparr>;
                 output_path = ''dashboard/data/analysis_results.json''
             in Inr (output_path, w \<lparr> results := (results w)(output_path \<mapsto> results2) \<rparr>))"

subsection \<open>\<^verbatim>\<open>run_analysis\<close> (lines 372-419)\<close>

text \<open>
  The method returns nothing; its effect is the world it leaves. \<open>Inl\<close> is an
  exception that leaves the method, with the world at that point.
\<close>

definition run_analysis ::
  "analyzer \<Rightarrow> string \<Rightarrow> string \<Rightarrow> world \<Rightarrow> (py_error \<times> world) + world" where
  "run_analysis self filepath now w =
     (case load_event_data self filepath w of
        (None, self1, w1) \<Rightarrow> Inr w1
      | (Some df, self1, w1) \<Rightarrow>
     (case prepare_data_summary (self_demographics self1) df of
        Inl e \<Rightarrow> Inl (e, w1)
      | Inr data_summary \<Rightarrow>
     (case generate_predictions df of
        Inl e \<Rightarrow> Inl (e, w1)
      | Inr predictions \<Rightarrow>
     (case analyze_with_ai self1 data_summary w1 of
        (None, w2) \<Rightarrow> Inr w2
      | (Some insights, w2) \<Rightarrow>
     (case save_results self1 insights predictions data_summary now w2 of
        Inl x \<Rightarrow> Inl x
      | Inr (output_path, w3) \<Rightarrow> Inr w3)))))"

section \<open>The extractor: \<^verbatim>\<open>extract_events.py\<close>\<close>

subsection \<open>Cell grids\<close>

text \<open>
  The value of one cell of a sheet read with \<^verbatim>\<open>header=None\<close>: blank (\<^verbatim>\<open>NaN\<close>), a
  string, a Python \<^verbatim>\<open>int\<close>, a float (NumPy's \<^verbatim>\<open>float64\<close> is a subclass of
  \<^verbatim>\<open>float\<close>), a \<^verbatim>\<open>bool\<close>, a NumPy integer (which is not an instance of \<^verbatim>\<open>int\<close>),
  a \<^verbatim>\<open>datetime\<close> (pandas' \<^verbatim>\<open>Timestamp\<close> is one), or some other object such as a
  time of day.
\<close>

datatype cell =
    NaN
  | StrV string
  | IntV int
  | FloatV real
  | BoolV bool
  | NpIntV int
  | DateV date
  | OtherV

text \<open>
  A sheet is the list of its rows. A data frame is rectangular: every row has
  \<^verbatim>\<open>len(df.columns)\<close> cells, so the column loops of the source run over the
  positions of the row.
\<close>

type_synonym sheet = "cell list list"

text \<open>
  Two built-ins whose results on these values the source does not fix are parameters
  of the model: the text \<^verbatim>\<open>str\<close> gives for a value that is not a string, and the
  integer \<^verbatim>\<open>int\<close> reads from a string (\<open>None\<close> when it raises \<^verbatim>\<open>ValueError\<close>).
\<close>

record pylib =
  str_of :: "cell \<Rightarrow> string"
  int_of_str :: "string \<Rightarrow> int option"

definition notna :: "cell \<Rightarrow> bool" where
  "notna c = (c \<noteq> NaN)"

text \<open>\<^verbatim>\<open>str(c)\<close>.\<close>

definition py_str :: "pylib \<Rightarrow> cell \<Rightarrow> string" where
  "py_str L c = (case c of StrV s \<Rightarrow> s | NaN \<Rightarrow> ''nan'' | _ \<Rightarrow> str_of L c)"

text \<open>\<^verbatim>\<open>str(c) if pd.notna(c) else ''\<close>.\<close>

definition cell_text :: "pylib \<Rightarrow> cell \<Rightarrow> string" where
  "cell_text L c = (if notna c then py_str L c else [])"

text \<open>\<^verbatim>\<open>int(c)\<close>; on a float it truncates towards zero.\<close>

definition py_int :: "pylib \<Rightarrow> cell \<Rightarrow> py_error + int" where
  "py_int L c =
     (case c of
        NaN \<Rightarrow> Inl ValueError
      | StrV s \<Rightarrow> (case int_of_str L s of None \<Rightarrow> Inl ValueError | Some n \<Rightarrow> Inr n)
      | IntV n \<Rightarrow> Inr n
      | FloatV x \<Rightarrow> Inr (if 0 \<le> x then \<lfloor>x\<rfloor> else \<lceil>x\<rceil>)
      | BoolV b \<Rightarrow> Inr (if b then 1 else 0)
      | NpIntV n \<Rightarrow> Inr n
      | DateV d \<Rightarrow> Inl TypeError
      | OtherV \<Rightarrow> Inl TypeError)"

text \<open>
  \<^verbatim>\<open>isinstance(c, (int, float))\<close>, with the number that is then compared; \<^verbatim>\<open>bool\<close> is
  a subclass of \<^verbatim>\<open>int\<close>.
\<close>

definition number_of :: "cell \<Rightarrow> real option" where
  "number_of c =
     (case c of
        IntV n \<Rightarrow> Some (real_of_int n)
      | FloatV x \<Rightarrow> Some x
      | BoolV b \<Rightarrow> Some (if b then 1 else 0)
      | _ \<Rightarrow> None)"

text \<open>The truth value of a cell value in a condition.\<close>

definition truthy :: "cell \<Rightarrow> bool" where
  "truthy c =
     (case c of
        NaN \<Rightarrow> True
      | StrV s \<Rightarrow> s \<noteq> []
      | IntV n \<Rightarrow> n \<noteq> 0
      | FloatV x \<Rightarrow> x \<noteq> 0
      | BoolV b \<Rightarrow> b
      | NpIntV n \<Rightarrow> n \<noteq> 0
      | DateV d \<Rightarrow> True
      | OtherV \<Rightarrow> True)"

subsection \<open>\<^verbatim>\<open>extract_budget_data\<close> (lines 11-38)\<close>

text \<open>Line 25: the cells at \<^verbatim>\<open>range(j+1, min(j+5, len(budget.columns)))\<close> of the row.\<close>

definition window :: "cell list \<Rightarrow> nat \<Rightarrow> cell list" where
  "window row j = map (\<lambda>k. row ! k) [j + 1 ..< min (j + 5) (length row)]"

text \<open>Line 27: the test on one value of the window.\<close>

definition qualifies :: "cell \<Rightarrow> bool" where
  "qualifies val =
     (notna val \<and> (case number_of val of Some x \<Rightarrow> x > 100 | None \<Rightarrow> False))"

text \<open>Lines 25-29: the loop over \<open>k\<close>, left at the first value that passes.\<close>

fun scan_right :: "cell list \<Rightarrow> real option" where
  "scan_right [] = None"
| "scan_right (val # vals) =
     (if qualifies val then number_of val else scan_right vals)"

text \<open>Line 23: the test on the text of a cell.\<close>

definition is_total_label :: "string \<Rightarrow> bool" where
  "is_total_label cell = (contains ''Overall Total'' cell \<or> contains ''TOTAL'' (upper cell))"

text \<open>
  Lines 20-31: the loop over the columns \<open>js\<close> still to visit in one row, entered
  with \<^verbatim>\<open>total_cost\<close> unset; it is left as soon as a total is set.
\<close>

fun budget_cols :: "pylib \<Rightarrow> cell list \<Rightarrow> nat list \<Rightarrow> real option" where
  "budget_cols L row [] = None"
| "budget_cols L row (j # js) =
     (if is_total_label (cell_text L (row ! j)) then
        (case scan_right (window row j) of
           Some total_cost \<Rightarrow> Some total_cost
         | None \<Rightarrow> budget_cols L row js)
      else budget_cols L row js)"

text \<open>Lines 19-33: the loop over the rows.\<close>

fun budget_rows :: "pylib \<Rightarrow> sheet \<Rightarrow> real option" where
  "budget_rows L [] = None"
| "budget_rows L (row # rows) =
     (case budget_cols L row [0 ..< length row] of
        Some total_cost \<Rightarrow> Some total_cost
      | None \<Rightarrow> budget_rows L rows)"

text \<open>
  The function. Its argument is the \<^verbatim>\<open>Budget\<close> sheet of the workbook, \<open>None\<close> when
  \<^verbatim>\<open>read_excel\<close> raises (no such sheet, no readable file): the handler returns \<^verbatim>\<open>None\<close>.
\<close>

definition extract_budget_data :: "pylib \<Rightarrow> sheet option \<Rightarrow> real option" where
  "extract_budget_data L budget =
     (case budget of None \<Rightarrow> None | Some sh \<Rightarrow> budget_rows L sh)"

subsection \<open>\<^verbatim>\<open>extract_demographics\<close> (lines 41-80)\<close>

datatype category = Freshman | Sophomore | Junior | Senior | Graduate | Alumni | Other

definition categories :: "category list" where
  "categories = [Freshman, Sophomore, Junior, Senior, Graduate, Alumni, Other]"

text \<open>The dictionary \<^verbatim>\<open>demographics\<close> has these seven keys throughout.\<close>

type_synonym demographics = "category \<Rightarrow> nat"

text \<open>Lines 58-71: one cell; \<open>demo\<close> is the dictionary \<^verbatim>\<open>demographics\<close>.\<close>

definition count_cell :: "pylib \<Rightarrow> cell \<Rightarrow> demographics \<Rightarrow> demographics" where
  "count_cell L c demo =
     (let val = lower (cell_text L c) in
      if contains ''freshman'' val then demo (Freshman := demo Freshman + 1)
      else if contains ''sophmore'' val \<or> contains ''sophomore'' val
        then demo (Sophomore := demo Sophomore + 1)
      else if contains ''junior'' val then demo (Junior := demo Junior + 1)
      else if contains ''senior'' val then demo (Senior := demo Senior + 1)
      else if contains ''graduate'' val \<or> contains ''grad'' val
              \<or> contains ''masters'' val \<or> contains ''phd'' val
        then demo (Graduate := demo Graduate + 1)
      else if contains ''alumni'' val then demo (Alumni := demo Alumni + 1)
      else demo)"

text \<open>Lines 56-71: the two loops, every cell in row-major order.\<close>

definition count_cells :: "pylib \<Rightarrow> sheet \<Rightarrow> demographics \<Rightarrow> demographics" where
  "count_cells L attendees demo =
     fold (\<lambda>row d. fold (count_cell L) row d) attendees demo"

definition extract_demographics :: "pylib \<Rightarrow> sheet option \<Rightarrow> demographics option" where
  "extract_demographics L attendee_data =
     (case attendee_data of
        None \<Rightarrow> None
      | Some attendees \<Rightarrow>
          let demo = count_cells L attendees (\<lambda>_. 0);
              total = sum_list (map demo categories)
          in if total > 5 then Some demo else None)"

subsection \<open>\<^verbatim>\<open>extract_event_from_workbook\<close> (lines 83-161)\<close>

text \<open>Lines 95-99: the loop over the first columns of one row, \<^verbatim>\<open>event_name\<close> unset.\<close>

fun name_cols :: "cell list \<Rightarrow> string option" where
  "name_cols [] = None"
| "name_cols (val # vals) =
     (case val of
        StrV s \<Rightarrow>
          if length s > 3 \<and> \<not> contains ''Event'' s \<and> \<not> contains ''NaN'' s
          then Some s else name_cols vals
      | _ \<Rightarrow> name_cols vals)"

text \<open>
  Lines 93-101: the loop over the first rows. A name that is set has more than three
  characters, so \<^verbatim>\<open>if event_name\<close> holds and the loop is left.
\<close>

fun name_rows :: "sheet \<Rightarrow> string option" where
  "name_rows [] = None"
| "name_rows (row # rows) =
     (case name_cols (take 3 row) of
        Some event_name \<Rightarrow> Some event_name
      | None \<Rightarrow> name_rows rows)"

definition find_event_name :: "sheet \<Rightarrow> string option" where
  "find_event_name overview = name_rows (take 5 overview)"

text \<open>
  Lines 105-113: the loop over the columns \<open>js\<close> of one row; the result is the value
  assigned to \<^verbatim>\<open>event_date\<close>, if any.
\<close>

fun date_cols :: "pylib \<Rightarrow> cell list \<Rightarrow> nat list \<Rightarrow> cell option" where
  "date_cols L row [] = None"
| "date_cols L row (j # js) =
     (let val = row ! j in
      if notna val then
        (case val of
           DateV d \<Rightarrow> Some val
         | _ \<Rightarrow>
             if contains ''Event Date'' (py_str L (if j > 0 then row ! (j - 1) else StrV []))
             then Some val
             else date_cols L row js)
      else date_cols L row js)"

text \<open>
  Lines 104-115: the loop over the rows, with the current \<^verbatim>\<open>event_date\<close>. It is left
  only when that value is true in a condition.
\<close>

fun date_rows :: "pylib \<Rightarrow> sheet \<Rightarrow> cell option \<Rightarrow> cell option" where
  "date_rows L [] event_date = event_date"
| "date_rows L (row # rows) event_date =
     (let event_date' =
            (case date_cols L row [0 ..< length row] of
               Some val \<Rightarrow> Some val
             | None \<Rightarrow> event_date)
      in if (case event_date' of Some v \<Rightarrow> truthy v | None \<Rightarrow> False) then event_date'
         else date_rows L rows event_date')"

text \<open>
  Lines 130-133 and 136-139: the two cells to the right of column \<open>j\<close>, read into
  \<^verbatim>\<open>registered\<close> and \<^verbatim>\<open>attended\<close> (the state \<open>s\<close>). When \<^verbatim>\<open>int\<close> raises, the
  state keeps what was assigned before.
\<close>

type_synonym attendance_state = "int option \<times> int option"

definition read_right ::
  "pylib \<Rightarrow> cell list \<Rightarrow> nat \<Rightarrow> attendance_state \<Rightarrow> (py_error \<times> attendance_state) + attendance_state" where
  "read_right L row j s =
     (case (if j + 1 < length row \<and> notna (row ! (j + 1)) then
              (case py_int L (row ! (j + 1)) of
                 Inl e \<Rightarrow> Inl (e, s)
               | Inr registered \<Rightarrow> Inr (Some registered, snd s))
            else Inr s) of
        Inl x \<Rightarrow> Inl x
      | Inr s1 \<Rightarrow>
          if j + 2 < length row \<and> notna (row ! (j + 2)) then
            (case py_int L (row ! (j + 2)) of
               Inl e \<Rightarrow> Inl (e, s1)
             | Inr attended \<Rightarrow> Inr (fst s1, Some attended))
          else Inr s1)"

text \<open>Lines 129 and 135: the two label tests.\<close>

definition is_total_rsvp :: "string \<Rightarrow> bool" where
  "is_total_rsvp cell = (contains ''TOTAL'' (upper cell) \<and> contains ''RSVP'' (upper cell))"

definition is_raw_tickets :: "string \<Rightarrow> bool" where
  "is_raw_tickets cell = contains ''Raw Tickets'' cell"

text \<open>Lines 127-139: the body of the inner loop at column \<open>j\<close>.\<close>

definition rsvp_cell ::
  "pylib \<Rightarrow> cell list \<Rightarrow> nat \<Rightarrow> attendance_state \<Rightarrow> (py_error \<times> attendance_state) + attendance_state" where
  "rsvp_cell L row j s =
     (let cell = cell_text L (row ! j) in
      case (if is_total_rsvp cell then read_right L row j s else Inr s) of
        Inl x \<Rightarrow> Inl x
      | Inr s1 \<Rightarrow> if is_raw_tickets cell then read_right L row j s1 else Inr s1)"

text \<open>Lines 126-139 and 125-139: the loops over columns and rows; a raise leaves both.\<close>

fun rsvp_cols ::
  "pylib \<Rightarrow> cell list \<Rightarrow> nat list \<Rightarrow> attendance_state \<Rightarrow> (py_error \<times> attendance_state) + attendance_state" where
  "rsvp_cols L row [] s = Inr s"
| "rsvp_cols L row (j # js) s =
     (case rsvp_cell L row j s of
        Inl x \<Rightarrow> Inl x
      | Inr s1 \<Rightarrow> rsvp_cols L row js s1)"

fun rsvp_rows ::
  "pylib \<Rightarrow> sheet \<Rightarrow> attendance_state \<Rightarrow> (py_error \<times> attendance_state) + attendance_state" where
  "rsvp_rows L [] s = Inr s"
| "rsvp_rows L (row # rows) s =
     (case rsvp_cols L row [0 ..< length row] s of
        Inl x \<Rightarrow> Inl x
      | Inr s1 \<Rightarrow> rsvp_rows L rows s1)"

text \<open>
  Lines 118-142: the attendance block. Its \<^verbatim>\<open>except\<close> catches a missing sheet and a
  failed conversion alike; the two variables keep the values they have then.
\<close>

definition recover_attendance :: "pylib \<Rightarrow> sheet option \<Rightarrow> attendance_state" where
  "recover_attendance L rsvp_snapshot =
     (case rsvp_snapshot of
        None \<Rightarrow> (None, None)
      | Some rsvp \<Rightarrow>
          (case rsvp_rows L rsvp (None, None) of
             Inl (e, s) \<Rightarrow> s
           | Inr s \<Rightarrow> s))"

text \<open>
  A workbook, by the four sheets the extractor reads; \<open>None\<close> is a sheet that
  \<^verbatim>\<open>read_excel\<close> cannot deliver (an unreadable file has none).
\<close>

record workbook =
  overview :: "sheet option"
  rsvp_snapshot :: "sheet option"
  budget :: "sheet option"
  attendee_data :: "sheet option"

text \<open>The dictionary the function returns; \<^verbatim>\<open>Event Type\<close> is added by the caller.\<close>

record event_data =
  Event_Name :: "string option"
  Date :: "cell option"
  Expected_Attendance :: "int option"
  Actual_Attendance :: "int option"
  Total_Budget :: "real option"
  Demographics :: "demographics option"
  Event_Type :: "string option"

text \<open>
  The function. Without an \<^verbatim>\<open>Overview\<close> sheet the first statement raises and the
  outer handler returns \<^verbatim>\<open>None\<close>.
\<close>

definition extract_event_from_workbook :: "pylib \<Rightarrow> workbook \<Rightarrow> event_data option" where
  "extract_event_from_workbook L wb =
     (case overview wb of
        None \<Rightarrow> None
      | Some ov \<Rightarrow>
          let event_name = find_event_name ov;
              event_date = date_rows L ov None;
              (registered, attended) = recover_attendance L (rsvp_snapshot wb);
              budget_total = extract_budget_data L (budget wb);
              demo = extract_demographics L (attendee_data wb)
          in Some \<lparr> Event_Name = event_name,
                    Date = event_date,
                    Expected_Attendance = registered,
                    Actual_Attendance = attended,
                    Total_Budget = budget_total,
                    Demographics = demo,
                    Event_Type = None \<rparr>)"

subsection \<open>\<^verbatim>\<open>determine_event_type\<close> (lines 164-186)\<close>

definition determine_event_type :: "string option \<Rightarrow> string" where
  "determine_event_type event_name =
     (case event_name of
        None \<Rightarrow> ''Other''
      | Some n \<Rightarrow>
          let name_lower = lower n;
              any = (\<lambda>xs. list_ex (\<lambda>x. contains x name_lower) xs)
          in if any [''garba'', ''diwali'', ''holi'', ''navratri''] then ''Cultural Festival''
             else if any [''bollywood'', ''blackout'', ''mehndi'', ''sangeet''] then ''Cultural Show''
             else if any [''formal'', ''dinner'', ''banquet'', ''gala''] then ''Formal''
             else if any [''sima'', ''matchmaking'', ''dating''] then ''Social''
             else if any [''workshop'', ''career'', ''professional'', ''networking'']
               then ''Professional''
             else if any [''sports'', ''cricket'', ''volleyball'', ''tournament''] then ''Sports''
             else if any [''welcome'', ''freshers'', ''orientation''] then ''Welcome''
             else ''Cultural'')"

subsection \<open>\<^verbatim>\<open>extract_all_events\<close> (lines 189-218)\<close>

text \<open>Line 195: the file names the loop takes up.\<close>

definition is_event_workbook :: "string \<Rightarrow> bool" where
  "is_event_workbook filename =
     (suffix ''.xlsx'' filename \<and> contains ''Event Management'' filename)"

text \<open>Lines 206-207: the counts of one event added to the aggregate, key by key.\<close>

definition add_demographics ::
  "demographics \<Rightarrow> (category \<rightharpoonup> nat) \<Rightarrow> (category \<rightharpoonup> nat)" where
  "add_demographics demo all_demographics =
     fold (\<lambda>key acc. acc (key \<mapsto> (case acc key of None \<Rightarrow> 0 | Some n \<Rightarrow> n) + demo key))
       categories all_demographics"

text \<open>
  The loop over the directory listing, each file name with the workbook behind it.
  \<open>evs\<close> and \<open>all_demographics\<close> are the accumulators \<^verbatim>\<open>events\<close> and
  \<^verbatim>\<open>all_demographics\<close> of the source.
\<close>

fun extract_loop ::
  "pylib \<Rightarrow> (string \<times> workbook) list \<Rightarrow> event_data list \<Rightarrow> (category \<rightharpoonup> nat)
     \<Rightarrow> event_data list \<times> (category \<rightharpoonup> nat)" where
  "extract_loop L [] evs all_demographics = (evs, all_demographics)"
| "extract_loop L ((filename, wb) # files) evs all_demographics =
     (if is_event_workbook filename then
        (case extract_event_from_workbook L wb of
           None \<Rightarrow> extract_loop L files evs all_demographics
         | Some ed \<Rightarrow>
             (case Event_Name ed of
                None \<Rightarrow> extract_loop L files evs all_demographics
              | Some n \<Rightarrow>
                  if n = [] then extract_loop L files evs all_demographics
                  else
                    let ed' = ed \<lparr> Event_Type := Some (determine_event_type (Event_Name ed)) \<rparr>;
                        all_demographics' =
                          (case Demographics ed' of
                             None \<Rightarrow> all_demographics
                           | Some demo \<Rightarrow> add_demographics demo all_demographics)
                    in extract_loop L files (evs @ [ed']) all_demographics'))
      else extract_loop L files evs all_demographics)"

definition extract_all_events ::
  "pylib \<Rightarrow> (string \<times> workbook) list \<Rightarrow> event_data list \<times> (category \<rightharpoonup> nat)" where
  "extract_all_events L data_folder = extract_loop L data_folder [] Map.empty"

section \<open>Reference formulations\<close>

text \<open>The order of the grades, \<open>D\<close> lowest.\<close>

fun grade_rank :: "grade \<Rightarrow> nat" where
  "grade_rank D = 0"
| "grade_rank C_minus = 1"
| "grade_rank C = 2"
| "grade_rank C_plus = 3"
| "grade_rank B_minus = 4"
| "grade_rank B = 5"
| "grade_rank B_plus = 6"
| "grade_rank A_minus = 7"
| "grade_rank A = 8"
| "grade_rank A_plus = 9"

text \<open>
  A valid summary document, by the two conditions of the claim: it lists at least one
  event, and its total expected attendance is positive.
\<close>

definition valid_summary :: "summary \<Rightarrow> bool" where
  "valid_summary s = (events s \<noteq> [] \<and> 0 < total_registered s)"

text \<open>The actual attendance of every event of the summary is a non-negative number.\<close>

definition nonneg_attendance :: "summary \<Rightarrow> bool" where
  "nonneg_attendance s = list_all (\<lambda>e. 0 \<le> ev_actual e) (events s)"

text \<open>A summary document with a single event, used to instantiate statements.\<close>

definition sample_summary :: summary where
  "sample_summary =
     \<lparr> total_events = 1,
       date_range = ''Jan 2024 to Jan 2024'',
       event_types = [''Cultural'' \<mapsto> 1],
       avg_attendance = 90,
       total_attendees = 90,
       total_registered = 100,
       attendance_rate = 90,
       total_budget = Some 500,
       avg_budget_per_event = Some 500,
       cost_per_attendee = Some 5.56,
       avg_cost_per_attendee = Some 5.56,
       best_performing_event = ''Garba Night'',
       highest_attendance = 90,
       best_conversion_event = ''Garba Night'',
       best_conversion_rate = 90,
       events =
         [\<lparr> ev_name = ''Garba Night'', ev_type = ''Cultural'', ev_date = ''2024-01-10'',
            ev_expected = 100, ev_actual = 90, ev_attendance_rate = 90,
            ev_budget = Some 500, ev_cost_per_attendee = Some 5.56 \<rparr>],
       demographics = None,
       engagement_score = None \<rparr>"

text \<open>
  A data set of two events whose actual attendance is negative, with the summary
  document \<^verbatim>\<open>prepare_data_summary\<close> builds from it (before the engagement score).
\<close>

definition negative_summary :: summary where
  "negative_summary =
     \<lparr> total_events = 2,
       date_range = ''Jan 2024 to Feb 2024'',
       event_types = [''Cultural'' \<mapsto> 2],
       avg_attendance = -3,
       total_attendees = -6,
       total_registered = 6,
       attendance_rate = -100,
       total_budget = None,
       avg_budget_per_event = None,
       cost_per_attendee = None,
       avg_cost_per_attendee = None,
       best_performing_event = ''Mixer'',
       highest_attendance = -1,
       best_conversion_event = ''Mixer'',
       best_conversion_rate = -100,
       events =
         [\<lparr> ev_name = ''Mixer'', ev_type = ''Cultural'', ev_date = ''2024-01-10'',
            ev_expected = 1, ev_actual = -1, ev_attendance_rate = -100,
            ev_budget = None, ev_cost_per_attendee = None \<rparr>,
          \<lparr> ev_name = ''Picnic'', ev_type = ''Cultural'', ev_date = ''2024-02-14'',
            ev_expected = 5, ev_actual = -5, ev_attendance_rate = -100,
            ev_budget = None, ev_cost_per_attendee = None \<rparr>],
       demographics = None,
       engagement_score = None \<rparr>"

definition negative_frame :: dataframe where
  "negative_frame =
     [\<lparr> col_Event_Name = ''Mixer'', col_Date = Some \<lparr> year = 2024, month = 1, day = 10 \<rparr>,
        col_Event_Type = ''Cultural'',
        col_Expected_Attendance = Some 1, col_Actual_Attendance = Some (-1),
        col_Total_Budget = None \<rparr>,
      \<lparr> col_Event_Name = ''Picnic'', col_Date = Some \<lparr> year = 2024, month = 2, day = 14 \<rparr>,
        col_Event_Type = ''Cultural'',
        col_Expected_Attendance = Some 5, col_Actual_Attendance = Some (-5),
        col_Total_Budget = None \<rparr>]"

text \<open>
  A data set of one event whose four components sum to 49.98, with its summary
  document.
\<close>

definition boundary_summary :: summary where
  "boundary_summary =
     \<lparr> total_events = 1,
       date_range = ''Jan 2024 to Jan 2024'',
       event_types = [''Formal'' \<mapsto> 1],
       avg_attendance = 649,
       total_attendees = 649,
       total_registered = 1000,
       attendance_rate = 64.9,
       total_budget = Some 31346.7,
       avg_budget_per_event = Some 31346.7,
       cost_per_attendee = Some 48.3,
       avg_cost_per_attendee = Some 48.3,
       best_performing_event = ''Gala'',
       highest_attendance = 649,
       best_conversion_event = ''Gala'',
       best_conversion_rate = 64.9,
       events =
         [\<lparr> ev_name = ''Gala'', ev_type = ''Formal'', ev_date = ''2024-01-10'',
            ev_expected = 1000, ev_actual = 649, ev_attendance_rate = 64.9,
            ev_budget = Some 31346.7, ev_cost_per_attendee = Some 48.3 \<rparr>],
       demographics = None,
       engagement_score = None \<rparr>"

definition boundary_frame :: dataframe where
  "boundary_frame =
     [\<lparr> col_Event_Name = ''Gala'', col_Date = Some \<lparr> year = 2024, month = 1, day = 10 \<rparr>,
        col_Event_Type = ''Formal'',
        col_Expected_Attendance = Some 1000, col_Actual_Attendance = Some 649,
        col_Total_Budget = Some 31346.7 \<rparr>]"

text \<open>
  The scenario data set of three events \<open>A\<close>, \<open>B\<close> and \<open>C\<close>; their dates and types
  are left open.
\<close>

definition scenario :: "date \<Rightarrow> date \<Rightarrow> date \<Rightarrow> string \<Rightarrow> string \<Rightarrow> string \<Rightarrow> dataframe" where
  "scenario dA dB dC tA tB tC =
     [\<lparr> col_Event_Name = ''A'', col_Date = Some dA, col_Event_Type = tA,
        col_Expected_Attendance = Some 100, col_Actual_Attendance = Some 90,
        col_Total_Budget = Some 500 \<rparr>,
      \<lparr> col_Event_Name = ''B'', col_Date = Some dB, col_Event_Type = tB,
        col_Expected_Attendance = Some 200, col_Actual_Attendance = Some 150,
        col_Total_Budget = None \<rparr>,
      \<lparr> col_Event_Name = ''C'', col_Date = Some dC, col_Event_Type = tC,
        col_Expected_Attendance = Some 50, col_Actual_Attendance = Some 50,
        col_Total_Budget = Some 300 \<rparr>]"

text \<open>
  A concrete run: the scenario data set with dates and event types, stored as the
  compiled workbook, and three analyzers whose service returns a narrative, returns a
  response without content, and raises.
\<close>

definition sample_frame :: dataframe where
  "sample_frame =
     scenario \<lparr> year = 2024, month = 1, day = 10 \<rparr> \<lparr> year = 2024, month = 2, day = 14 \<rparr>
       \<lparr> year = 2024, month = 3, day = 20 \<rparr> ''Cultural Festival'' ''Social'' ''Formal''"

definition sample_world :: world where
  "sample_world =
     \<lparr> workbooks = [''data/compiled_events.xlsx'' \<mapsto> Events_only sample_frame],
       results = Map.empty,
       errors_printed = [] \<rparr>"

definition narrating_analyzer :: analyzer where
  "narrating_analyzer =
     \<lparr> org_name = ''Society of Indian Americans'', model = ''gpt-4o'',
       client = (\<lambda>req. Api_response [Some ''Executive Summary'']),
       self_demographics = None \<rparr>"



text \<open>
  Position \<open>k\<close> holds the first occurrence of the maximum \<open>b\<close> among the first \<open>i\<close>
  entries of a column, blank entries skipped.
\<close>

definition first_max :: "('a::linorder) option list \<Rightarrow> nat \<Rightarrow> nat \<Rightarrow> 'a \<Rightarrow> bool" where
  "first_max ys i k b =
     (k < i \<and> ys ! k = Some b \<and> (\<forall>j<i. \<forall>u. ys ! j = Some u \<longrightarrow> u \<le> b)
      \<and> (\<forall>j<k. ys ! j \<noteq> Some b))"

text \<open>The per-event attendance rate, where both numbers are present.\<close>

definition conversion_rate :: "event_row \<Rightarrow> real option" where
  "conversion_rate r =
     (case (col_Actual_Attendance r, col_Expected_Attendance r) of
        (Some a, Some e) \<Rightarrow> Some (real_of_int a / real_of_int e * 100)
      | _ \<Rightarrow> None)"

text \<open>
  The budget rule in the words of the specification: the label cells of the sheet in
  row-major order, each with its row; the first of them that has a qualifying value
  among the next four cells to its right; and the first such value.
\<close>

definition label_cells :: "pylib \<Rightarrow> sheet \<Rightarrow> (cell list \<times> nat) list" where
  "label_cells L sh =
     concat (map (\<lambda>row. map (\<lambda>j. (row, j))
       (filter (\<lambda>j. is_total_label (cell_text L (row ! j))) [0 ..< length row])) sh)"

definition next_four :: "cell list \<Rightarrow> nat \<Rightarrow> cell list" where
  "next_four row j = take 4 (drop (j + 1) row)"

definition budget_rule :: "pylib \<Rightarrow> sheet \<Rightarrow> real option" where
  "budget_rule L sh =
     (case find (\<lambda>(row, j). list_ex qualifies (next_four row j)) (label_cells L sh) of
        None \<Rightarrow> None
      | Some (row, j) \<Rightarrow>
          (case find qualifies (next_four row j) of
             None \<Rightarrow> None
           | Some v \<Rightarrow> number_of v))"

text \<open>
  The attendance rule in the words of the specification. A cell is a label when its
  text matches the TOTAL/RSVP rule or the Raw Tickets rule. \<open>right_cell k\<close> is the
  cell \<open>k\<close> places to the right of a label, when present and not blank;
  \<open>right_cells k\<close> lists these cells for all labels of the sheet in row-major order;
  the value recovered is read from the last of them. A list of cells is \<open>readable\<close>
  when \<^verbatim>\<open>int\<close> succeeds on each.
\<close>

definition is_attendance_label :: "pylib \<Rightarrow> cell \<Rightarrow> bool" where
  "is_attendance_label L c =
     (is_total_rsvp (cell_text L c) \<or> is_raw_tickets (cell_text L c))"

definition right_cell :: "nat \<Rightarrow> pylib \<Rightarrow> cell list \<Rightarrow> nat \<Rightarrow> cell list" where
  "right_cell k L row j =
     (if is_attendance_label L (row ! j) \<and> j + k < length row \<and> notna (row ! (j + k))
      then [row ! (j + k)] else [])"

definition right_cells :: "nat \<Rightarrow> pylib \<Rightarrow> sheet \<Rightarrow> cell list" where
  "right_cells k L sh =
     concat (map (\<lambda>row. concat (map (right_cell k L row) [0 ..< length row])) sh)"

definition last_wins :: "pylib \<Rightarrow> cell list \<Rightarrow> int option \<Rightarrow> int option" where
  "last_wins L cs v =
     (if cs = [] then v
      else (case py_int L (last cs) of Inr n \<Rightarrow> Some n | Inl e \<Rightarrow> None))"

definition readable :: "pylib \<Rightarrow> cell list \<Rightarrow> bool" where
  "readable L cs = list_all (\<lambda>c. \<exists>n. py_int L c = Inr n) cs"

text \<open>What one directory entry adds to the list of events.\<close>

definition contribution :: "pylib \<Rightarrow> string \<times> workbook \<Rightarrow> event_data list" where
  "contribution L entry =
     (if is_event_workbook (fst entry) then
        (case extract_event_from_workbook L (snd entry) of
           None \<Rightarrow> []
         | Some ed \<Rightarrow>
             (case Event_Name ed of
                None \<Rightarrow> []
              | Some n \<Rightarrow>
                  if n = [] then []
                  else [ed \<lparr> Event_Type := Some (determine_event_type (Event_Name ed)) \<rparr>]))
      else [])"

text \<open>
  An instance of the two built-in parameters, for concrete sheets: \<^verbatim>\<open>int\<close> on a
  string of decimal digits with an optional sign, and the texts of integers and
  truth values.
\<close>

fun digits_value :: "string \<Rightarrow> nat \<Rightarrow> nat option" where
  "digits_value [] acc = Some acc"
| "digits_value (c # cs) acc =
     (case map_of (zip ''0123456789'' [0, 1, 2, 3, 4, 5, 6, 7, 8, 9]) c of
        None \<Rightarrow> None
      | Some d \<Rightarrow> digits_value cs (10 * acc + d))"

definition decimal_int :: "string \<Rightarrow> int option" where
  "decimal_int s =
     (case s of
        [] \<Rightarrow> None
      | c # cs \<Rightarrow>
          if c = CHR ''-'' then (if cs = [] then None else map_option (\<lambda>n. - int n) (digits_value cs 0))
          else if c = CHR ''+'' then (if cs = [] then None else map_option int (digits_value cs 0))
          else map_option int (digits_value s 0))"

definition sample_lib :: pylib where
  "sample_lib =
     \<lparr> str_of = (\<lambda>c. case c of
                   IntV n \<Rightarrow> (if n < 0 then ''-'' else []) @ show_nat (nat \<bar>n\<bar>)
                 | NpIntV n \<Rightarrow> (if n < 0 then ''-'' else []) @ show_nat (nat \<bar>n\<bar>)
                 | BoolV b \<Rightarrow> (if b then ''True'' else ''False'')
                 | _ \<Rightarrow> ''0.0''),
       int_of_str = decimal_int \<rparr>"

text \<open>Sample sheets and workbooks.\<close>

definition sample_attendees :: sheet where
  "sample_attendees =
     [[StrV ''Name'', StrV ''Year''],
      [StrV ''Asha'', StrV ''Freshman''],
      [StrV ''Ravi'', StrV ''freshman''],
      [StrV ''Meera'', StrV ''Sophmore''],
      [StrV ''Dev'', StrV ''Senior''],
      [StrV ''Kiran'', StrV ''PhD student''],
      [StrV ''Other'', StrV ''Alumni''],
      [NaN, IntV 7]]"

definition sample_rsvp :: sheet where
  "sample_rsvp =
     [[StrV ''Category'', StrV ''Count'', StrV ''Attended''],
      [StrV ''Total RSVPs'', IntV 120, FloatV 95.5],
      [StrV ''Raw Tickets sold'', IntV 140, NaN],
      [StrV ''Notes'', NaN, NaN]]"

definition pending_rsvp :: sheet where
  "pending_rsvp =
     [[StrV ''Total RSVPs'', StrV ''pending'', NpIntV 50],
      [StrV ''Raw Tickets'', IntV 140, NpIntV 130]]"

definition event_only_workbook :: workbook where
  "event_only_workbook =
     \<lparr> overview = Some [[NaN, StrV ''Event'', NaN], [FloatV 12, NaN, StrV ''abc'']],
       rsvp_snapshot = None, budget = None, attendee_data = None \<rparr>"

text \<open>
  A budget sheet with a header row, whose second column therefore holds Python
  objects, and a sheet without one, whose second column holds integers only and is
  read as NumPy integers.
\<close>

definition headed_budget :: sheet where
  "headed_budget =
     [[StrV ''Item'', StrV ''Cost''],
      [StrV ''Venue'', IntV 500],
      [StrV ''Subtotal'', IntV 90],
      [StrV ''TOTAL'', IntV 800]]"

definition headerless_budget :: sheet where
  "headerless_budget =
     [[StrV ''Venue'', NpIntV 500],
      [StrV ''Food'', NpIntV 300],
      [StrV ''TOTAL'', NpIntV 800]]"

section \<open>Properties of the engagement score\<close>

lemma att_score_bounds: "0 \<le> att_score r \<and> att_score r \<le> 40"
  by (simp add: att_score_def)

lemma np_mean_nonneg: "(\<And>x. x \<in> set xs \<Longrightarrow> 0 \<le> x) \<Longrightarrow> 0 \<le> np_mean xs"
  unfolding np_mean_def by (intro divide_nonneg_nonneg sum_list_nonneg) auto

lemma np_std_nonneg: "0 \<le> np_std xs"
  unfolding np_std_def by (intro real_sqrt_ge_zero np_mean_nonneg) auto

lemma consistency_score_bounds: "0 \<le> consistency_score rs \<and> consistency_score rs \<le> 20"
  using np_std_nonneg [of rs] by (simp add: consistency_score_def)

lemma eff_score_bounds: "0 \<le> eff_score cpa \<and> eff_score cpa \<le> 20"
  by (simp add: eff_score_def)

lemma efficiency_score_bounds: "0 \<le> efficiency_score c \<and> efficiency_score c \<le> 20"
  using eff_score_bounds by (simp add: efficiency_score_def split: option.splits)

text \<open>The two branches of the growth formula, on non-negative half means.\<close>

lemma growth_formula_bounds:
  fixes f s :: real
  assumes "0 \<le> f" "0 \<le> s"
  shows "0 \<le> (if s \<ge> f then min 20 (10 + (if f > 0 then ((s - f) / f) * 100 else 0) * 0.5)
               else if f = 0 then 0 else max 0 (10 - ((f - s) / f) * 100 * 0.5))
       \<and> (if s \<ge> f then min 20 (10 + (if f > 0 then ((s - f) / f) * 100 else 0) * 0.5)
               else if f = 0 then 0 else max 0 (10 - ((f - s) / f) * 100 * 0.5)) \<le> 20"
proof (cases "s \<ge> f")
  case True
  define g where "g = (s - f) / f"
  have "0 \<le> g" using True assms by (simp add: g_def)
  then have "0 \<le> min 20 (10 + (if f > 0 then g * 100 else 0) * 0.5)" by simp
  then show ?thesis using True by (simp add: g_def)
next
  case False
  define d where "d = (f - s) / f"
  have f: "0 < f" using False assms by simp
  have "0 \<le> d" using False f by (simp add: d_def)
  then have "max 0 (10 - d * 100 * 0.5) \<le> 20" by simp
  then show ?thesis using False f unfolding d_def by simp
qed

lemma growth_score_bounds:
  assumes "\<forall>e\<in>set evs. 0 \<le> ev_actual e"
  shows "0 \<le> growth_score evs \<and> growth_score evs \<le> 20"
proof -
  let ?se = "sort_key ev_date evs"
  let ?mid = "length ?se div 2"
  let ?f = "np_mean (map (\<lambda>e. real_of_int (ev_actual e)) (take ?mid ?se))"
  let ?s = "np_mean (map (\<lambda>e. real_of_int (ev_actual e)) (drop ?mid ?se))"
  have f: "0 \<le> ?f" by (rule np_mean_nonneg) (use assms in \<open>auto dest!: in_set_takeD\<close>)
  have s: "0 \<le> ?s" by (rule np_mean_nonneg) (use assms in \<open>auto dest!: in_set_dropD\<close>)
  show ?thesis
    using growth_formula_bounds [OF f s]
    unfolding growth_score_def Let_def by (simp del: length_sort)
qed

text \<open>Rounding keeps a value between 0 and an integer bound.\<close>

lemma py_round_bounds:
  assumes "0 \<le> x" "x \<le> real_of_int m"
  shows "0 \<le> py_round n x \<and> py_round n x \<le> real_of_int m"
proof -
  let ?y = "x * 10 ^ n"
  let ?f = "\<lfloor>?y\<rfloor>"
  let ?M = "m * 10 ^ n"
  have y0: "0 \<le> ?y" using assms by simp
  have yM: "?y \<le> real_of_int ?M" using assms by simp
  have f0: "0 \<le> ?f" using y0 by simp
  have fM: "?f \<le> ?M" using yM by (metis floor_mono floor_of_int)
  have up: "?f + 1 \<le> ?M" if "0 < ?y - of_int ?f"
  proof -
    have "of_int ?f < ?y" using that by simp
    then have "real_of_int ?f < real_of_int ?M" using yM by linarith
    then show ?thesis by linarith
  qed
  define r where "r = (if ?y - of_int ?f < 1 / 2 then ?f
                 else if 1 / 2 < ?y - of_int ?f then ?f + 1
                 else if even ?f then ?f else ?f + 1)"
  have r0: "0 \<le> r" using f0 by (simp add: r_def)
  have rM: "r \<le> ?M" using fM up by (auto simp: r_def)
  have eq: "py_round n x = of_int r / 10 ^ n" by (simp add: py_round_def r_def Let_def)
  have "real_of_int r \<le> real_of_int ?M" using rM by linarith
  then have "real_of_int r / 10 ^ n \<le> real_of_int m" by (simp add: divide_le_eq)
  moreover have "0 \<le> real_of_int r / 10 ^ n" using r0 by simp
  ultimately show ?thesis by (simp add: eq)
qed

lemma raw_score_bounds:
  assumes "\<forall>e\<in>set (events s). 0 \<le> ev_actual e"
  shows "0 \<le> raw_score s \<and> raw_score s \<le> 100"
  using att_score_bounds [of "attendance_rate s"]
    consistency_score_bounds [of "map ev_attendance_rate (events s)"]
    growth_score_bounds [OF assms]
    efficiency_score_bounds [of "cost_per_attendee s"]
  unfolding raw_score_def by linarith

text \<open>
  Claim C2, as amended. For every valid summary document whose events have
  non-negative actual attendance, the four components of the engagement score lie in
  their ranges, the attendance component in [0, 40] and the consistency, growth and
  efficiency components in [0, 20] each; the score that \<^verbatim>\<open>calculate_engagement_score\<close>
  returns is the sum of the four components rounded to one decimal, without any
  clamping, and lies in [0, 100]. At the rates 0, 65, 75, 85 and 100 the attendance
  component is 0, 20, 30, 40 and 40.
\<close>

theorem engagement_score_in_range:
  assumes "valid_summary s" and "nonneg_attendance s"
  shows "0 \<le> att_score (attendance_rate s) \<and> att_score (attendance_rate s) \<le> 40
    \<and> 0 \<le> consistency_score (map ev_attendance_rate (events s))
    \<and> consistency_score (map ev_attendance_rate (events s)) \<le> 20
    \<and> 0 \<le> growth_score (events s) \<and> growth_score (events s) \<le> 20
    \<and> 0 \<le> efficiency_score (cost_per_attendee s) \<and> efficiency_score (cost_per_attendee s) \<le> 20
    \<and> score (calculate_engagement_score df s) =
        py_round 1 (att_score (attendance_rate s)
          + consistency_score (map ev_attendance_rate (events s))
          + growth_score (events s)
          + efficiency_score (cost_per_attendee s))
    \<and> 0 \<le> score (calculate_engagement_score df s)
    \<and> score (calculate_engagement_score df s) \<le> 100
    \<and> [att_score 0, att_score 65, att_score 75, att_score 85, att_score 100]
        = [0, 20, 30, 40, 40]"
proof -
  have nonneg: "\<forall>e\<in>set (events s). 0 \<le> ev_actual e"
    using assms(2) by (simp add: nonneg_attendance_def list_all_iff)
  have raw: "0 \<le> raw_score s" "raw_score s \<le> real_of_int 100"
    using raw_score_bounds [OF nonneg] by simp_all
  have sc: "score (calculate_engagement_score df s) = py_round 1 (raw_score s)"
    by (simp add: calculate_engagement_score_def grade_and_return_def)
  have rng: "0 \<le> py_round 1 (raw_score s) \<and> py_round 1 (raw_score s) \<le> 100"
    using py_round_bounds [OF raw, of 1] by simp
  show ?thesis
    using att_score_bounds [of "attendance_rate s"]
      consistency_score_bounds [of "map ev_attendance_rate (events s)"]
      growth_score_bounds [OF nonneg]
      efficiency_score_bounds [of "cost_per_attendee s"] rng
    unfolding sc by (simp add: raw_score_def att_score_def)
qed

theorem engagement_score_in_range_witness:
  "valid_summary sample_summary \<and> nonneg_attendance sample_summary
     \<and> 0 \<le> score (calculate_engagement_score () sample_summary)
     \<and> score (calculate_engagement_score () sample_summary) \<le> 100"
proof -
  have v: "valid_summary sample_summary"
    by (simp add: valid_summary_def sample_summary_def)
  have n: "nonneg_attendance sample_summary"
    by (simp add: nonneg_attendance_def sample_summary_def)
  show ?thesis
    using v n engagement_score_in_range [OF v n, of "()"] by simp
qed

lemma negative_growth: "growth_score (events negative_summary) = 210"
  by (simp add: growth_score_def negative_summary_def np_mean_def Let_def)

lemma negative_consistency:
  "consistency_score (map ev_attendance_rate (events negative_summary)) = 20"
  by (simp add: consistency_score_def negative_summary_def np_std_def np_mean_def)

lemma negative_events: "events_detail negative_frame = Inr (events negative_summary)"
  by (simp add: negative_frame_def negative_summary_def event_of_row_def strftime_Y_m_d_def
      zero_pad_def show_nat.simps py_round_def Let_def)

lemma negative_prepared:
  "case prepare_data_summary None negative_frame of
     Inr s \<Rightarrow> events s = events negative_summary \<and> total_registered s = 6
              \<and> map_option score (engagement_score s) = Some 242
   | Inl e \<Rightarrow> False"
  unfolding prepare_data_summary_def negative_events
  apply (simp add: negative_frame_def date_range_of_def dropna_def col_sum_def col_max_def
      idxmax_def financial_metrics_def call_calculate_engagement_score_def Let_def
      calculate_engagement_score_def grade_and_return_def raw_score_def
      negative_growth negative_consistency)
  apply (simp add: negative_summary_def att_score_def efficiency_score_def py_round_def)
  done

text \<open>
  The claim as stated fails on a summary that meets its two conditions and has
  negative attendance: the decline branch of the growth component has no upper cap,
  the component is 210 and the score 242. \<^verbatim>\<open>prepare_data_summary\<close> builds this summary,
  with this score, from the data set of the two events.
\<close>

theorem negative_attendance_counterexample:
  "valid_summary negative_summary
   \<and> growth_score (events negative_summary) = 210
   \<and> score (calculate_engagement_score () negative_summary) = 242
   \<and> \<not> score (calculate_engagement_score () negative_summary) \<le> 100
   \<and> (case prepare_data_summary None negative_frame of
         Inr s \<Rightarrow> events s = events negative_summary \<and> total_registered s = 6
                  \<and> map_option score (engagement_score s) = Some 242
       | Inl e \<Rightarrow> False)"
proof -
  have v: "valid_summary negative_summary"
    by (simp add: valid_summary_def negative_summary_def)
  have "raw_score negative_summary = 242"
    unfolding raw_score_def negative_growth negative_consistency
    by (simp add: negative_summary_def att_score_def efficiency_score_def)
  then have sc: "score (calculate_engagement_score () negative_summary) = 242"
    by (simp add: calculate_engagement_score_def grade_and_return_def py_round_def)
  show ?thesis using v negative_growth sc negative_prepared by simp
qed

text \<open>
  Claim C4, as amended. The grade is a function of the unrounded value accumulated
  from the four components, the value the method grades before it rounds the score it
  returns: it is monotone non-decreasing in that value, with inclusive lower bounds 90,
  85, 80, 75, 70, 65, 60, 55 and 50 for the grades from A+ down to C-, and D below 50;
  each boundary value receives the grade of its band and the value one below it the
  next lower grade. The returned score is that value rounded to one decimal, so a
  returned score that equals a boundary can come with the next lower grade.
\<close>

theorem grade_assignment:
  fixes x y :: real
  shows "(x \<le> y \<longrightarrow> grade_rank (grade_of x) \<le> grade_rank (grade_of y))
    \<and> (grade_of x = A_plus \<longleftrightarrow> 90 \<le> x)
    \<and> (grade_of x = A \<longleftrightarrow> 85 \<le> x \<and> x < 90)
    \<and> (grade_of x = A_minus \<longleftrightarrow> 80 \<le> x \<and> x < 85)
    \<and> (grade_of x = B_plus \<longleftrightarrow> 75 \<le> x \<and> x < 80)
    \<and> (grade_of x = B \<longleftrightarrow> 70 \<le> x \<and> x < 75)
    \<and> (grade_of x = B_minus \<longleftrightarrow> 65 \<le> x \<and> x < 70)
    \<and> (grade_of x = C_plus \<longleftrightarrow> 60 \<le> x \<and> x < 65)
    \<and> (grade_of x = C \<longleftrightarrow> 55 \<le> x \<and> x < 60)
    \<and> (grade_of x = C_minus \<longleftrightarrow> 50 \<le> x \<and> x < 55)
    \<and> (grade_of x = D \<longleftrightarrow> x < 50)
    \<and> [grade_of 90, grade_of 85, grade_of 80, grade_of 75, grade_of 70,
        grade_of 65, grade_of 60, grade_of 55, grade_of 50]
       = [A_plus, A, A_minus, B_plus, B, B_minus, C_plus, C, C_minus]
    \<and> [grade_of 89, grade_of 84, grade_of 79, grade_of 74, grade_of 69,
        grade_of 64, grade_of 59, grade_of 54, grade_of 49]
       = [A, A_minus, B_plus, B, B_minus, C_plus, C, C_minus, D]
    \<and> grade (grade_and_return x bd) = grade_of x
    \<and> score (grade_and_return x bd) = py_round 1 x
    \<and> grade (calculate_engagement_score df s) = grade_of (raw_score s)
    \<and> score (calculate_engagement_score df s) = py_round 1 (raw_score s)"
  by (simp add: grade_of_def calculate_engagement_score_def grade_and_return_def)

theorem grade_assignment_witness:
  "(64.9 :: real) \<le> 65 \<and> grade_rank (grade_of 64.9) \<le> grade_rank (grade_of 65)
     \<and> grade_of 65 = B_minus \<and> grade_of 64.9 = C_plus"
  using grade_assignment [of "64.9" 65] grade_assignment [of 65 65]
  by (simp add: grade_of_def)

lemma boundary_raw_score: "raw_score boundary_summary = 49.98"
  by (simp add: raw_score_def boundary_summary_def att_score_def consistency_score_def
      growth_score_def efficiency_score_def eff_score_def)

lemma boundary_events: "events_detail boundary_frame = Inr (events boundary_summary)"
  by (simp add: boundary_frame_def boundary_summary_def event_of_row_def strftime_Y_m_d_def
      zero_pad_def show_nat.simps py_round_def Let_def)

lemma boundary_prepared:
  "case prepare_data_summary None boundary_frame of
     Inr s \<Rightarrow> map_option score (engagement_score s) = Some 50
              \<and> map_option grade (engagement_score s) = Some D
   | Inl e \<Rightarrow> False"
  unfolding prepare_data_summary_def boundary_events
  apply (simp add: boundary_frame_def date_range_of_def dropna_def col_sum_def col_max_def
      idxmax_def financial_metrics_def call_calculate_engagement_score_def Let_def
      calculate_engagement_score_def grade_and_return_def raw_score_def)
  apply (simp add: boundary_summary_def att_score_def efficiency_score_def eff_score_def
      consistency_score_def growth_score_def py_round_def grade_of_def)
  apply (rule exI [of _ "313467 / 10"])
  apply simp
  done

text \<open>
  The claim as stated fails for the score the method returns: the components of this
  summary sum to 49.98, the returned score is 50 and the grade is D, where the claim
  gives C- to a score of 50. \<^verbatim>\<open>prepare_data_summary\<close> returns this score and grade for
  the data set of the one event.
\<close>

theorem rounded_boundary_counterexample:
  "valid_summary boundary_summary \<and> nonneg_attendance boundary_summary
   \<and> score (calculate_engagement_score () boundary_summary) = 50
   \<and> grade (calculate_engagement_score () boundary_summary) = D
   \<and> grade_of 50 = C_minus
   \<and> (case prepare_data_summary None boundary_frame of
         Inr s \<Rightarrow> map_option score (engagement_score s) = Some 50
                  \<and> map_option grade (engagement_score s) = Some D
       | Inl e \<Rightarrow> False)"
proof -
  have v: "valid_summary boundary_summary \<and> nonneg_attendance boundary_summary"
    by (simp add: valid_summary_def nonneg_attendance_def boundary_summary_def)
  have sc: "score (calculate_engagement_score () boundary_summary) = 50
      \<and> grade (calculate_engagement_score () boundary_summary) = D"
    by (simp add: calculate_engagement_score_def grade_and_return_def boundary_raw_score
        py_round_def grade_of_def)
  show ?thesis using v sc boundary_prepared by (simp add: grade_of_def)
qed

text \<open>
  Claim C9. The efficiency component is not monotone non-increasing in the cost per
  attendee: at 20 it is 10, at 21 it is 13.7, so a strictly larger cost can score
  strictly higher.
\<close>

theorem efficiency_not_monotone:
  "eff_score 20 = 10 \<and> eff_score 21 = 13.7
     \<and> efficiency_score (Some 20) = 10 \<and> efficiency_score (Some 21) = 13.7
     \<and> (\<exists>cpa1 cpa2. cpa1 < cpa2 \<and> efficiency_score (Some cpa1) < efficiency_score (Some cpa2))"
proof -
  have a: "efficiency_score (Some 20) = 10" by (simp add: efficiency_score_def eff_score_def)
  have b: "efficiency_score (Some 21) = 13.7" by (simp add: efficiency_score_def eff_score_def)
  have "(20 :: real) < 21 \<and> efficiency_score (Some 20) < efficiency_score (Some 21)"
    unfolding a b by simp
  then have "\<exists>cpa1 cpa2. cpa1 < cpa2 \<and> efficiency_score (Some cpa1) < efficiency_score (Some cpa2)"
    by blast
  then show ?thesis using a b by (simp add: eff_score_def)
qed

section \<open>Properties of the summary\<close>

lemma scenario_prepared: "\<exists>ds. prepare_data_summary demo (scenario dA dB dC tA tB tC) = Inr ds"
  unfolding prepare_data_summary_def scenario_def
  by (simp add: date_range_of_def dropna_def col_sum_def col_max_def idxmax_def
      financial_metrics_def event_of_row_def call_calculate_engagement_score_def Let_def)

lemma idxmax_from_inv:
  assumes "case best of None \<Rightarrow> (\<forall>j<i. ys ! j = None) | Some (k, b) \<Rightarrow> first_max ys i k b"
    and "xs = drop i ys" and "i \<le> length ys"
  shows "case idxmax_from i xs best of
           None \<Rightarrow> (\<forall>j<length ys. ys ! j = None)
         | Some (k, b) \<Rightarrow> first_max ys (length ys) k b"
  using assms
proof (induction xs arbitrary: i best)
  case Nil
  then have "i = length ys" by simp
  then show ?case using Nil.prems(1) by (cases best) auto
next
  case (Cons x xs)
  have i: "i < length ys" using Cons.prems(2,3) by (metis drop_all leI list.distinct(1))
  have x: "ys ! i = x" and xs: "xs = drop (Suc i) ys"
    using Cons.prems(2) i by (metis Cons_nth_drop_Suc list.inject)+
  have le: "Suc i \<le> length ys" using i by simp
  show ?case
  proof (cases x)
    case None
    have "case best of None \<Rightarrow> (\<forall>j<Suc i. ys ! j = None) | Some (k, b) \<Rightarrow> first_max ys (Suc i) k b"
      using Cons.prems(1) x None
      by (auto simp: first_max_def less_Suc_eq split: option.splits)
    from Cons.IH [OF this xs le] show ?thesis using None by simp
  next
    case (Some v)
    let ?best = "case best of None \<Rightarrow> Some (i, v)
                 | Some (k, b) \<Rightarrow> if b < v then Some (i, v) else Some (k, b)"
    have "case ?best of None \<Rightarrow> (\<forall>j<Suc i. ys ! j = None) | Some (k, b) \<Rightarrow> first_max ys (Suc i) k b"
    proof (cases best)
      case None
      then show ?thesis using Cons.prems(1) x Some
        by (auto simp: first_max_def less_Suc_eq)
    next
      case (Some kb)
      obtain k b where kb: "kb = (k, b)" by (cases kb)
      have fm: "first_max ys i k b" using Cons.prems(1) Some kb by simp
      show ?thesis
      proof (cases "b < v")
        case True
        have "first_max ys (Suc i) i v"
          unfolding first_max_def
        proof (intro conjI allI impI)
          show "i < Suc i" by simp
          show "ys ! i = Some v" using x \<open>x = Some v\<close> by simp
        next
          fix j u assume "j < Suc i" "ys ! j = Some u"
          then show "u \<le> v"
            using fm True x \<open>x = Some v\<close> by (cases "j = i") (auto simp: first_max_def less_Suc_eq)
        next
          fix j assume "j < i"
          then show "ys ! j \<noteq> Some v" using fm True by (auto simp: first_max_def)
        qed
        then show ?thesis using Some kb True by simp
      next
        case False
        have "first_max ys (Suc i) k b"
          using fm False x \<open>x = Some v\<close> by (auto simp: first_max_def less_Suc_eq)
        then show ?thesis using Some kb False by simp
      qed
    qed
    from Cons.IH [OF this xs le] show ?thesis using Some by simp
  qed
qed

lemma idxmax_first_max:
  assumes "idxmax xs = Some k"
  shows "\<exists>b. first_max xs (length xs) k b"
proof -
  obtain b where r: "idxmax_from 0 xs None = Some (k, b)"
    using assms by (auto simp: idxmax_def)
  have "case idxmax_from 0 xs None of
           None \<Rightarrow> (\<forall>j<length xs. xs ! j = None)
         | Some (k, b) \<Rightarrow> first_max xs (length xs) k b"
    by (rule idxmax_from_inv) simp_all
  then show ?thesis using r by auto
qed

lemma set_dropna: "set (dropna xs) = {v. Some v \<in> set xs}"
  by (induction xs) (auto simp: dropna_def split: option.splits)

lemma col_max_greatest:
  assumes "col_max xs = Some h"
  shows "Some h \<in> set xs \<and> (\<forall>u. Some u \<in> set xs \<longrightarrow> u \<le> h)"
proof -
  obtain v vs where d: "dropna xs = v # vs" and h: "h = fold max vs v"
    using assms by (auto simp: col_max_def split: list.splits)
  have "h = Max (set (v # vs))" unfolding h by (rule Max.set_eq_fold [symmetric])
  then have "h = Max (set (dropna xs))" unfolding d .
  moreover have "set (dropna xs) \<noteq> {}" using d by simp
  ultimately have "h \<in> set (dropna xs)" "\<forall>u\<in>set (dropna xs). u \<le> h"
    by (simp_all add: Max_in)
  then show ?thesis by (simp add: set_dropna)
qed

lemma first_max_col_max:
  assumes "first_max xs (length xs) k b" "col_max xs = Some h"
  shows "h = b"
proof -
  have b: "Some b \<in> set xs" "\<forall>u. Some u \<in> set xs \<longrightarrow> u \<le> b"
    using assms(1) by (auto simp: first_max_def in_set_conv_nth)
  have h: "Some h \<in> set xs" "\<forall>u. Some u \<in> set xs \<longrightarrow> u \<le> h"
    using col_max_greatest [OF assms(2)] by simp_all
  show ?thesis using b h by (meson order_antisym)
qed

lemma attendance_rate_column_map:
  "attendance_rate_column df = Inr rates \<Longrightarrow> rates = map conversion_rate df"
  by (induction df arbitrary: rates)
     (auto simp: conversion_rate_def split: sum.splits option.splits if_splits)

lemma best_events:
  assumes "prepare_data_summary demo df = Inr s"
  shows "\<exists>k. first_max (map col_Actual_Attendance df) (length df) k (highest_attendance s)
              \<and> best_performing_event s = col_Event_Name (df ! k)"
    and "\<exists>k r. first_max (map conversion_rate df) (length df) k r
              \<and> best_conversion_event s = col_Event_Name (df ! k)
              \<and> best_conversion_rate s = py_round 1 r"
proof -
  from assms obtain best highest rates ri rate where
    b: "idxmax (map col_Actual_Attendance df) = Some best"
    and h: "col_max (map col_Actual_Attendance df) = Some highest"
    and rc: "attendance_rate_column df = Inr rates"
    and ri: "idxmax rates = Some ri" and rr: "rates ! ri = Some rate"
    and s1: "best_performing_event s = col_Event_Name (df ! best)"
    and s2: "highest_attendance s = highest"
    and s3: "best_conversion_event s = col_Event_Name (df ! ri)"
    and s4: "best_conversion_rate s = py_round 1 rate"
    unfolding prepare_data_summary_def Let_def
    by (auto split: sum.splits option.splits if_splits prod.splits)
  obtain v where v: "first_max (map col_Actual_Attendance df) (length df) best v"
    using idxmax_first_max [OF b] by auto
  have "highest = v" using first_max_col_max [of "map col_Actual_Attendance df" best v highest] v h
    by simp
  then show "\<exists>k. first_max (map col_Actual_Attendance df) (length df) k (highest_attendance s)
              \<and> best_performing_event s = col_Event_Name (df ! k)"
    using v s1 s2 by auto
  have rm: "rates = map conversion_rate df" using rc by (rule attendance_rate_column_map)
  obtain r where r: "first_max rates (length rates) ri r"
    using idxmax_first_max [OF ri] by auto
  then have "r = rate" using rr by (simp add: first_max_def)
  then show "\<exists>k r. first_max (map conversion_rate df) (length df) k r
              \<and> best_conversion_event s = col_Event_Name (df ! k)
              \<and> best_conversion_rate s = py_round 1 r"
    using r s3 s4 unfolding rm by auto
qed

text \<open>
  Claim C3. On the data set of the three events A (expected 100, actual 90, budget
  500), B (expected 200, actual 150, no budget) and C (expected 50, actual 50, budget
  300), \<^verbatim>\<open>prepare_data_summary\<close> returns a summary with 3 events, 290 attendees, 350
  registered, attendance rate 82.9, total budget 800, cost per attendee 2.76, best
  performing event B with 150 attendees and best conversion event C at rate 100.
  In every summary the best performing event is the first event, in the order of the
  data set, whose actual attendance is the maximum, and the best conversion event is
  the first event whose rate actual / expected * 100 is the maximum.
\<close>

theorem scenario_summary:
  "(\<exists>s. prepare_data_summary demo (scenario dA dB dC tA tB tC) = Inr s
     \<and> total_events s = 3 \<and> total_attendees s = 290 \<and> total_registered s = 350
     \<and> attendance_rate s = 82.9 \<and> total_budget s = Some 800
     \<and> cost_per_attendee s = Some 2.76
     \<and> best_performing_event s = ''B'' \<and> highest_attendance s = 150
     \<and> best_conversion_event s = ''C'' \<and> best_conversion_rate s = 100)
   \<and> (prepare_data_summary demo' df = Inr s' \<longrightarrow>
        (\<exists>k. first_max (map col_Actual_Attendance df) (length df) k (highest_attendance s')
              \<and> best_performing_event s' = col_Event_Name (df ! k))
      \<and> (\<exists>k r. first_max (map conversion_rate df) (length df) k r
              \<and> best_conversion_event s' = col_Event_Name (df ! k)
              \<and> best_conversion_rate s' = py_round 1 r))"
proof -
  have "\<exists>s. prepare_data_summary demo (scenario dA dB dC tA tB tC) = Inr s
     \<and> total_events s = 3 \<and> total_attendees s = 290 \<and> total_registered s = 350
     \<and> attendance_rate s = 82.9 \<and> total_budget s = Some 800
     \<and> cost_per_attendee s = Some 2.76
     \<and> best_performing_event s = ''B'' \<and> highest_attendance s = 150
     \<and> best_conversion_event s = ''C'' \<and> best_conversion_rate s = 100"
    unfolding prepare_data_summary_def scenario_def
    by (simp add: date_range_of_def dropna_def col_sum_def col_max_def idxmax_def
        financial_metrics_def event_of_row_def call_calculate_engagement_score_def
        Let_def py_round_def)
  then show ?thesis using best_events [of demo' df s'] by blast
qed

theorem scenario_summary_witness:
  "\<exists>s k. prepare_data_summary None sample_frame = Inr s
     \<and> first_max (map col_Actual_Attendance sample_frame) (length sample_frame) k
          (highest_attendance s)
     \<and> best_performing_event s = col_Event_Name (sample_frame ! k)"
proof -
  obtain s where s: "prepare_data_summary None sample_frame = Inr s"
    using scenario_prepared unfolding sample_frame_def by blast
  show ?thesis
    using s scenario_summary [of None _ _ _ _ _ _ None sample_frame s] by blast
qed

section \<open>Properties of a run\<close>

lemma sample_predicted: "\<exists>preds. generate_predictions sample_frame = Inr preds"
  unfolding generate_predictions_def sample_frame_def scenario_def
  by (simp add: unique_def predict_type_def dropna_def col_sum_def col_max_def col_min_def Let_def)

lemma sample_loaded:
  "load_event_data self ''data/compiled_events.xlsx'' sample_world
     = (Some sample_frame, self \<lparr> self_demographics := None \<rparr>, sample_world)"
  by (simp add: load_event_data_def sample_world_def)

text \<open>
  Claim C1. Whatever its arguments, \<^verbatim>\<open>save_results\<close> raises \<^verbatim>\<open>TypeError\<close> at the call
  of \<^verbatim>\<open>calculate_engagement_score\<close> and writes nothing; so a run that loaded its data
  and received a narrative ends in that exception, with no result document on disk.
\<close>

theorem save_results_raises:
  assumes "load_event_data self filepath w = (Some df, self1, w1)"
    and "prepare_data_summary (self_demographics self1) df = Inr data_summary"
    and "generate_predictions df = Inr predictions"
    and "analyze_with_ai self1 data_summary w1 = (Some insights, w2)"
  shows "save_results self1 insights predictions data_summary now w2 = Inl (TypeError, w2)
    \<and> run_analysis self filepath now w = Inl (TypeError, w2)
    \<and> results w2 = results w"
proof -
  have s: "save_results self1 insights predictions data_summary now w2 = Inl (TypeError, w2)"
    by (simp add: save_results_def call_calculate_engagement_score_def)
  have r: "run_analysis self filepath now w = Inl (TypeError, w2)"
    using assms s by (simp add: run_analysis_def)
  have "results w1 = results w"
    using assms(1) by (auto simp: load_event_data_def print_error_def split: option.splits compiled_file.splits)
  moreover have "results w2 = results w1"
    using assms(4)
    by (auto simp: analyze_with_ai_def print_error_def split: api_result.splits list.splits)
  ultimately show ?thesis using s r by simp
qed

theorem save_results_raises_witness:
  "run_analysis narrating_analyzer ''data/compiled_events.xlsx'' ''2024-04-01T12:00:00'' sample_world
     = Inl (TypeError, sample_world)
   \<and> results sample_world ''dashboard/data/analysis_results.json'' = None"
proof -
  let ?self1 = "narrating_analyzer \<lparr> self_demographics := None \<rparr>"
  obtain ds where ds: "prepare_data_summary (self_demographics ?self1) sample_frame = Inr ds"
    using scenario_prepared unfolding sample_frame_def by blast
  obtain preds where preds: "generate_predictions sample_frame = Inr preds"
    using sample_predicted by blast
  have ai: "analyze_with_ai ?self1 ds sample_world = (Some ''Executive Summary'', sample_world)"
    by (simp add: analyze_with_ai_def narrating_analyzer_def)
  show ?thesis
    using save_results_raises [OF sample_loaded ds preds ai]
    by (simp add: sample_world_def)
qed




section \<open>Properties of the extractor\<close>

subsection \<open>Demographics\<close>

lemma count_cell_Other: "count_cell L c demo Other = demo Other"
  by (simp add: count_cell_def Let_def)

lemma fold_count_cell_Other: "fold (count_cell L) row demo Other = demo Other"
  by (induction row arbitrary: demo) (simp_all add: count_cell_Other)

lemma count_cells_Other: "count_cells L sh demo Other = demo Other"
  unfolding count_cells_def
  by (induction sh arbitrary: demo) (simp_all add: fold_count_cell_Other)

text \<open>
  Claim C10. Whenever \<^verbatim>\<open>extract_demographics\<close> returns a mapping, its count for
  \<open>Other\<close> is 0, although \<open>Other\<close> is one of the seven keys: only the six other
  categories can have a positive count.
\<close>

theorem other_never_counted:
  assumes "extract_demographics L att = Some demo"
  shows "demo Other = 0 \<and> Other \<in> set categories
    \<and> (\<forall>c. 0 < demo c \<longrightarrow> c \<in> {Freshman, Sophomore, Junior, Senior, Graduate, Alumni})"
proof -
  have o: "demo Other = 0"
    using assms count_cells_Other [of L _ "\<lambda>_. 0"]
    by (auto simp: extract_demographics_def Let_def split: option.splits if_splits)
  have "c \<in> {Freshman, Sophomore, Junior, Senior, Graduate, Alumni}" if "0 < demo c" for c
    using that o by (cases c) simp_all
  then show ?thesis using o by (simp add: categories_def)
qed

lemma sample_counts:
  "\<exists>demo. extract_demographics sample_lib (Some sample_attendees) = Some demo \<and> demo Freshman = 2"
  by (simp add: extract_demographics_def sample_attendees_def sample_lib_def count_cells_def
      count_cell_def cell_text_def py_str_def notna_def lower_def lower_char_def categories_def Let_def
      show_nat.simps)

theorem other_never_counted_witness:
  "\<exists>demo. extract_demographics sample_lib (Some sample_attendees) = Some demo \<and> demo Other = 0"
proof -
  obtain demo where d: "extract_demographics sample_lib (Some sample_attendees) = Some demo"
    using sample_counts by blast
  show ?thesis using d other_never_counted [OF d] by simp
qed

subsection \<open>Events without a name\<close>

lemma extract_loop_events:
  "fst (extract_loop L files evs dem) = evs @ concat (map (contribution L) files)"
proof (induction files arbitrary: evs dem)
  case Nil
  then show ?case by simp
next
  case (Cons entry files)
  obtain filename wb where e: "entry = (filename, wb)" by (cases entry)
  show ?case
    unfolding e
    by (simp add: Cons.IH contribution_def Let_def split: option.splits)
qed

lemma length_contribution: "length (contribution L entry) \<le> 1"
  by (simp add: contribution_def split: option.splits)

lemma length_concat_contribution:
  "length (concat (map (contribution L) files)) \<le> length files"
proof (induction files)
  case Nil
  then show ?case by simp
next
  case (Cons entry files)
  then show ?case using length_contribution [of L entry] by simp
qed

lemma contribution_named:
  assumes "ed \<in> set (contribution L entry)"
  shows "\<exists>n. Event_Name ed = Some n \<and> n \<noteq> []"
proof -
  from assms obtain ed0 n where
    "extract_event_from_workbook L (snd entry) = Some ed0" "Event_Name ed0 = Some n" "n \<noteq> []"
    "ed = ed0 \<lparr> Event_Type := Some (determine_event_type (Event_Name ed0)) \<rparr>"
    unfolding contribution_def
    by (cases "is_event_workbook (fst entry)";
        cases "extract_event_from_workbook L (snd entry)";
        cases "Event_Name (the (extract_event_from_workbook L (snd entry)))";
        cases "the (Event_Name (the (extract_event_from_workbook L (snd entry)))) = []") auto
  then show ?thesis by simp
qed

lemma name_cols_none:
  assumes "\<forall>c\<in>set row. \<forall>s. c = StrV s \<and> length s > 3 \<longrightarrow> contains ''Event'' s \<or> contains ''NaN'' s"
  shows "name_cols row = None"
  using assms by (induction row) (auto split: cell.splits)

lemma name_rows_none:
  assumes "\<forall>row\<in>set sh. \<forall>c\<in>set row. \<forall>s. c = StrV s \<and> length s > 3 \<longrightarrow> contains ''Event'' s \<or> contains ''NaN'' s"
  shows "name_rows sh = None"
  using assms
proof (induction sh)
  case Nil
  then show ?case by simp
next
  case (Cons row sh)
  have "name_cols (take 3 row) = None"
    by (rule name_cols_none) (use Cons.prems in \<open>auto dest!: in_set_takeD\<close>)
  then show ?case using Cons by simp
qed

lemma find_event_name_none:
  assumes "\<forall>row\<in>set ov. \<forall>c\<in>set row. \<forall>s. c = StrV s \<and> length s > 3 \<longrightarrow> s = ''Event''"
  shows "find_event_name ov = None"
  unfolding find_event_name_def
proof (rule name_rows_none, intro ballI allI impI)
  fix row c s
  assume "row \<in> set (take 5 ov)" "c \<in> set row" "c = StrV s \<and> length s > 3"
  then have "s = ''Event''" using assms by (auto dest!: in_set_takeD)
  then show "contains ''Event'' s \<or> contains ''NaN'' s" by simp
qed

text \<open>
  Claim C8. Each directory entry adds at most one event to the data set, and none
  when no event name is recovered from its workbook: every event of the data set has
  a name, and the data set has at most as many events as there are workbooks. An
  Overview sheet whose only string cell of more than three characters is the text
  \<open>Event\<close> yields no name, and its workbook is dropped.
\<close>

theorem nameless_workbooks_dropped:
  "fst (extract_all_events L files) = concat (map (contribution L) files)
   \<and> length (fst (extract_all_events L files)) \<le> length files
   \<and> (\<forall>ed\<in>set (fst (extract_all_events L files)). \<exists>n. Event_Name ed = Some n \<and> n \<noteq> [])
   \<and> ((\<forall>row\<in>set ov. \<forall>c\<in>set row. \<forall>s. c = StrV s \<and> length s > 3 \<longrightarrow> s = ''Event'')
        \<and> overview wb = Some ov
      \<longrightarrow> find_event_name ov = None
        \<and> (\<exists>ed. extract_event_from_workbook L wb = Some ed \<and> Event_Name ed = None)
        \<and> extract_all_events L [(filename, wb)] = ([], Map.empty))"
proof -
  have chr: "fst (extract_all_events L files) = concat (map (contribution L) files)"
    by (simp add: extract_all_events_def extract_loop_events)
  have len: "length (fst (extract_all_events L files)) \<le> length files"
    unfolding chr by (rule length_concat_contribution)
  have named: "\<forall>ed\<in>set (fst (extract_all_events L files)). \<exists>n. Event_Name ed = Some n \<and> n \<noteq> []"
    unfolding chr using contribution_named by auto
  have drop: "find_event_name ov = None
        \<and> (\<exists>ed. extract_event_from_workbook L wb = Some ed \<and> Event_Name ed = None)
        \<and> extract_all_events L [(filename, wb)] = ([], Map.empty)"
    if a: "\<forall>row\<in>set ov. \<forall>c\<in>set row. \<forall>s. c = StrV s \<and> length s > 3 \<longrightarrow> s = ''Event''"
      and o: "overview wb = Some ov"
  proof -
    have n: "find_event_name ov = None" using a by (rule find_event_name_none)
    have e: "\<exists>ed. extract_event_from_workbook L wb = Some ed \<and> Event_Name ed = None"
      using n o by (simp add: extract_event_from_workbook_def Let_def split: prod.splits)
    then have "extract_all_events L [(filename, wb)] = ([], Map.empty)"
      by (auto simp: extract_all_events_def)
    then show ?thesis using n e by simp
  qed
  show ?thesis using chr len named drop by blast
qed

theorem nameless_workbooks_dropped_witness:
  "find_event_name [[NaN, StrV ''Event'', NaN], [FloatV 12, NaN, StrV ''abc'']] = None
   \<and> extract_all_events sample_lib [(''Garba Event Management.xlsx'', event_only_workbook)]
       = ([], Map.empty)
   \<and> length (fst (extract_all_events sample_lib
        [(''Garba Event Management.xlsx'', event_only_workbook)])) \<le> 1"
proof -
  let ?ov = "[[NaN, StrV ''Event'', NaN], [FloatV 12, NaN, StrV ''abc'']]"
  have a: "\<forall>row\<in>set ?ov. \<forall>c\<in>set row. \<forall>s. c = StrV s \<and> length s > 3 \<longrightarrow> s = ''Event''"
    by auto
  have o: "overview event_only_workbook = Some ?ov" by (simp add: event_only_workbook_def)
  show ?thesis
    using nameless_workbooks_dropped
      [of sample_lib "[(''Garba Event Management.xlsx'', event_only_workbook)]" ?ov
          event_only_workbook "''Garba Event Management.xlsx''"] a o
    by simp
qed

subsection \<open>The budget rule\<close>

lemma window_next_four: "window row j = next_four row j"
proof (rule nth_equalityI)
  show "length (window row j) = length (next_four row j)"
    by (auto simp: window_def next_four_def)
next
  fix i assume "i < length (window row j)"
  then have l: "i < length [Suc j ..< min (j + 5) (length row)]" by (simp add: window_def)
  then have "i < min (j + 5) (length row) - Suc j" by simp
  then have i: "Suc j + i < min (j + 5) (length row)" by linarith
  have "window row j ! i = row ! ([Suc j ..< min (j + 5) (length row)] ! i)"
    unfolding window_def using l by (simp only: nth_map Suc_eq_plus1)
  also have "[Suc j ..< min (j + 5) (length row)] ! i = Suc j + i"
    using i by (rule nth_upt)
  finally have w: "window row j ! i = row ! (Suc j + i)" .
  have "Suc j + i < length row" "i < 4" using i by simp_all
  then have "next_four row j ! i = row ! (Suc j + i)" by (simp add: next_four_def)
  then show "window row j ! i = next_four row j ! i" using w by simp
qed

lemma scan_right_find:
  "scan_right vals = (case find qualifies vals of None \<Rightarrow> None | Some v \<Rightarrow> number_of v)"
  by (induction vals) simp_all

lemma scan_right_None: "scan_right vals = None \<longleftrightarrow> \<not> list_ex qualifies vals"
  by (induction vals) (auto simp: qualifies_def split: option.splits)

lemma scan_right_gt: "scan_right vals = Some t \<Longrightarrow> t > 100"
  by (induction vals) (auto simp: qualifies_def split: option.splits if_splits)

lemma budget_cols_find:
  "budget_cols L row js =
     (case find (\<lambda>j. list_ex qualifies (window row j))
             (filter (\<lambda>j. is_total_label (cell_text L (row ! j))) js) of
        None \<Rightarrow> None
      | Some j \<Rightarrow> scan_right (window row j))"
proof (induction js)
  case Nil
  then show ?case by simp
next
  case (Cons j js)
  show ?case
  proof (cases "is_total_label (cell_text L (row ! j))")
    case False
    then show ?thesis using Cons by simp
  next
    case True
    show ?thesis
    proof (cases "scan_right (window row j)")
      case None
      then have "\<not> list_ex qualifies (window row j)" by (simp add: scan_right_None)
      then show ?thesis using True None Cons by simp
    next
      case (Some t)
      then have "list_ex qualifies (window row j)" using scan_right_None [of "window row j"] by simp
      then show ?thesis using True Some by simp
    qed
  qed
qed

lemma find_append_case:
  "find P (xs @ ys) = (case find P xs of None \<Rightarrow> find P ys | Some x \<Rightarrow> Some x)"
  by (induction xs) simp_all

lemma find_map_pair:
  "find (\<lambda>(r, j). Q r j) (map (\<lambda>j. (row, j)) js) = map_option (\<lambda>j. (row, j)) (find (Q row) js)"
  by (induction js) simp_all

lemma budget_rows_rule: "budget_rows L sh = budget_rule L sh"
proof (induction sh)
  case Nil
  then show ?case by (simp add: budget_rule_def label_cells_def)
next
  case (Cons row sh)
  let ?js = "filter (\<lambda>j. is_total_label (cell_text L (row ! j))) [0 ..< length row]"
  let ?Q = "\<lambda>r j. list_ex qualifies (next_four r j)"
  have lc: "label_cells L (row # sh) = map (\<lambda>j. (row, j)) ?js @ label_cells L sh"
    by (simp add: label_cells_def)
  show ?case
  proof (cases "find (?Q row) ?js")
    case None
    then have "budget_cols L row [0 ..< length row] = None"
      by (simp add: budget_cols_find window_next_four)
    moreover have "budget_rule L (row # sh) = budget_rule L sh"
      unfolding budget_rule_def lc find_append_case find_map_pair [of ?Q] None by simp
    ultimately show ?thesis using Cons by simp
  next
    case (Some j)
    then have q: "list_ex qualifies (next_four row j)"
      by (metis (mono_tags, lifting) find_Some_iff)
    then obtain t where t: "scan_right (window row j) = Some t"
      using scan_right_None [of "window row j"] by (auto simp: window_next_four)
    have "budget_cols L row [0 ..< length row] = Some t"
      using Some t by (simp add: budget_cols_find window_next_four)
    moreover have "budget_rule L (row # sh) = Some t"
      unfolding budget_rule_def lc find_append_case find_map_pair [of ?Q] Some
      using t by (simp add: scan_right_find window_next_four)
    ultimately show ?thesis by simp
  qed
qed

lemma budget_rows_gt: "budget_rows L sh = Some t \<Longrightarrow> t > 100"
proof (induction sh)
  case Nil
  then show ?case by simp
next
  case (Cons row sh)
  show ?case
  proof (cases "budget_cols L row [0 ..< length row]")
    case None
    then show ?thesis using Cons by simp
  next
    case (Some u)
    then have "u = t" using Cons.prems by simp
    moreover have "u > 100"
      using Some scan_right_gt unfolding budget_cols_find by (auto split: option.splits)
    ultimately show ?thesis by simp
  qed
qed

subsection \<open>The attendance rule\<close>

lemma last_wins_Nil: "last_wins L [] v = v"
  by (simp add: last_wins_def)

lemma last_wins_append: "last_wins L (xs @ ys) v = last_wins L ys (last_wins L xs v)"
  by (simp add: last_wins_def)

lemma last_wins_single: "py_int L c = Inr n \<Longrightarrow> last_wins L [c] v = Some n"
  by (simp add: last_wins_def)

text \<open>One read of the two cells to the right, when the conversions succeed.\<close>

lemma read_right_ok:
  assumes "j + 1 < length row \<and> notna (row ! (j + 1)) \<longrightarrow> (\<exists>n. py_int L (row ! (j + 1)) = Inr n)"
    and "j + 2 < length row \<and> notna (row ! (j + 2)) \<longrightarrow> (\<exists>n. py_int L (row ! (j + 2)) = Inr n)"
  shows "read_right L row j s =
     Inr (last_wins L (if j + 1 < length row \<and> notna (row ! (j + 1)) then [row ! (j + 1)] else []) (fst s),
          last_wins L (if j + 2 < length row \<and> notna (row ! (j + 2)) then [row ! (j + 2)] else []) (snd s))"
  using assms by (cases s) (auto simp: read_right_def last_wins_def)

lemma read_right_twice:
  assumes "read_right L row j s = Inr s1"
  shows "read_right L row j s1 = Inr s1"
  using assms
  by (cases s) (auto simp: read_right_def split: if_splits sum.splits)

lemma rsvp_cell_ok:
  assumes "readable L (right_cell 1 L row j)" "readable L (right_cell 2 L row j)"
  shows "rsvp_cell L row j s =
     Inr (last_wins L (right_cell 1 L row j) (fst s), last_wins L (right_cell 2 L row j) (snd s))"
proof (cases "is_attendance_label L (row ! j)")
  case False
  then show ?thesis
    by (simp add: rsvp_cell_def right_cell_def is_attendance_label_def last_wins_def Let_def)
next
  case True
  have a1: "j + 1 < length row \<and> notna (row ! (j + 1)) \<longrightarrow> (\<exists>n. py_int L (row ! (j + 1)) = Inr n)"
    using assms(1) True by (auto simp: right_cell_def readable_def split: if_splits)
  have a2: "j + 2 < length row \<and> notna (row ! (j + 2)) \<longrightarrow> (\<exists>n. py_int L (row ! (j + 2)) = Inr n)"
    using assms(2) True by (auto simp: right_cell_def readable_def split: if_splits)
  let ?r = "(last_wins L (right_cell 1 L row j) (fst s), last_wins L (right_cell 2 L row j) (snd s))"
  have rr: "read_right L row j s = Inr ?r"
    using read_right_ok [OF a1 a2, of s] True by (simp add: right_cell_def)
  have rr2: "read_right L row j ?r = Inr ?r"
    using read_right_twice [OF rr] .
  show ?thesis
    using True rr rr2
    by (auto simp: rsvp_cell_def is_attendance_label_def Let_def)
qed

lemma rsvp_cols_ok:
  assumes "readable L (concat (map (right_cell 1 L row) js))"
    and "readable L (concat (map (right_cell 2 L row) js))"
  shows "rsvp_cols L row js s =
     Inr (last_wins L (concat (map (right_cell 1 L row) js)) (fst s),
          last_wins L (concat (map (right_cell 2 L row) js)) (snd s))"
  using assms
proof (induction js arbitrary: s)
  case Nil
  then show ?case by (simp add: last_wins_Nil)
next
  case (Cons j js)
  have c: "readable L (right_cell 1 L row j)" "readable L (right_cell 2 L row j)"
    and r: "readable L (concat (map (right_cell 1 L row) js))"
      "readable L (concat (map (right_cell 2 L row) js))"
    using Cons.prems by (simp_all add: readable_def)
  show ?case
    by (simp add: rsvp_cell_ok [OF c] Cons.IH [OF r] last_wins_append)
qed

lemma rsvp_rows_ok:
  assumes "readable L (right_cells 1 L sh)" "readable L (right_cells 2 L sh)"
  shows "rsvp_rows L sh s =
     Inr (last_wins L (right_cells 1 L sh) (fst s), last_wins L (right_cells 2 L sh) (snd s))"
  using assms
proof (induction sh arbitrary: s)
  case Nil
  then show ?case by (simp add: right_cells_def last_wins_Nil)
next
  case (Cons row sh)
  have c: "readable L (concat (map (right_cell 1 L row) [0 ..< length row]))"
      "readable L (concat (map (right_cell 2 L row) [0 ..< length row]))"
    and r: "readable L (right_cells 1 L sh)" "readable L (right_cells 2 L sh)"
    using Cons.prems by (simp_all add: readable_def right_cells_def)
  have split: "\<And>k. right_cells k L (row # sh)
      = concat (map (right_cell k L row) [0 ..< length row]) @ right_cells k L sh"
    by (simp add: right_cells_def)
  show ?case
    by (simp add: rsvp_cols_ok [OF c] Cons.IH [OF r] split last_wins_append)
qed

text \<open>
  Claim C6, as amended. When every cell that the two rules read converts to an
  integer, expected and actual attendance are read from the last cell, in row-major
  order over the labels of both rules, that stands one place (two places) to the right
  of a label and is not blank; and a Raw Tickets cell with two convertible cells to its
  right sets both values, whatever was assigned before.
\<close>

theorem raw_tickets_last_match_wins:
  assumes "readable L (right_cells 1 L sh)" "readable L (right_cells 2 L sh)"
  shows "recover_attendance L (Some sh)
           = (last_wins L (right_cells 1 L sh) None, last_wins L (right_cells 2 L sh) None)
    \<and> (is_raw_tickets (cell_text L (row ! j)) \<and> j + 2 < length row
         \<and> py_int L (row ! (j + 1)) = Inr a \<and> py_int L (row ! (j + 2)) = Inr b
       \<longrightarrow> rsvp_cell L row j s = Inr (Some a, Some b))"
proof -
  have "recover_attendance L (Some sh)
           = (last_wins L (right_cells 1 L sh) None, last_wins L (right_cells 2 L sh) None)"
    using rsvp_rows_ok [OF assms, of "(None, None)"] by (simp add: recover_attendance_def)
  moreover have "rsvp_cell L row j s = Inr (Some a, Some b)"
    if h: "is_raw_tickets (cell_text L (row ! j))" "j + 2 < length row"
      "py_int L (row ! (j + 1)) = Inr a" "py_int L (row ! (j + 2)) = Inr b"
  proof -
    have n: "notna (row ! (j + 1))" "notna (row ! (j + 2))"
      using h(3,4) by (auto simp: notna_def py_int_def)
    have lab: "is_attendance_label L (row ! j)" using h(1) by (simp add: is_attendance_label_def)
    have "right_cell 1 L row j = [row ! (j + 1)]" "right_cell 2 L row j = [row ! (j + 2)]"
      using lab n h(2) by (simp_all add: right_cell_def)
    then show ?thesis
      using rsvp_cell_ok [of L row j s] h(3,4)
      by (simp add: readable_def last_wins_def)
  qed
  ultimately show ?thesis by blast
qed

lemma sample_rsvp_cells:
  "right_cells 1 sample_lib sample_rsvp = [IntV 120, IntV 140]"
  "right_cells 2 sample_lib sample_rsvp = [FloatV 95.5]"
  by (simp_all add: right_cells_def right_cell_def sample_rsvp_def sample_lib_def
      is_attendance_label_def is_total_rsvp_def is_raw_tickets_def cell_text_def py_str_def
      notna_def upper_def upper_char_def show_nat.simps)

theorem raw_tickets_last_match_wins_witness:
  "recover_attendance sample_lib (Some sample_rsvp) = (Some 140, Some 95)"
proof -
  have r: "readable sample_lib (right_cells 1 sample_lib sample_rsvp)"
      "readable sample_lib (right_cells 2 sample_lib sample_rsvp)"
    unfolding sample_rsvp_cells by (simp_all add: readable_def py_int_def)
  show ?thesis
    using raw_tickets_last_match_wins [OF r]
    unfolding sample_rsvp_cells by (simp add: last_wins_def py_int_def)
qed

text \<open>
  The claim as stated fails when a conversion fails: the text \<open>pending\<close> to the right
  of the TOTAL/RSVP label ends the scan, and the Raw Tickets row below it, with 140
  and 130 to its right, is never read.
\<close>

theorem failed_conversion_counterexample:
  "recover_attendance sample_lib (Some pending_rsvp) = (None, None)
   \<and> is_raw_tickets (cell_text sample_lib (pending_rsvp ! 1 ! 0))
   \<and> pending_rsvp ! 1 ! 1 = IntV 140 \<and> pending_rsvp ! 1 ! 2 = NpIntV 130"
  by (simp add: recover_attendance_def pending_rsvp_def rsvp_cell_def read_right_def
      is_total_rsvp_def is_raw_tickets_def cell_text_def py_str_def notna_def py_int_def
      sample_lib_def decimal_int_def upper_def upper_char_def Let_def)

text \<open>
  Claim C7. The loops of \<^verbatim>\<open>extract_budget_data\<close> compute the budget rule, with
  the test of line 27 as the meaning of a qualifying value: the first label, in
  row-major order, that has a qualifying value among the next four cells to its
  right, and the first such value. That test accepts Python integers and floats above
  100. A value that pandas hands out as a NumPy integer fails its \<^verbatim>\<open>isinstance\<close>
  part, so on the sheet without a header row no total is found, while the same
  numbers below a header row give 800.
\<close>

theorem numpy_integer_total_skipped:
  "extract_budget_data L (Some headerless_budget) = None
   \<and> extract_budget_data L (Some headed_budget) = Some 800
   \<and> extract_budget_data L (Some sh) = budget_rule L sh
   \<and> qualifies (IntV 800) \<and> qualifies (FloatV 800) \<and> \<not> qualifies (NpIntV 800)
   \<and> \<not> qualifies (IntV 100)"
proof -
  have a: "extract_budget_data L (Some headerless_budget) = None"
    by (simp add: extract_budget_data_def headerless_budget_def window_def qualifies_def
        number_of_def)
  have b: "extract_budget_data L (Some headed_budget) = Some 800"
    by (simp add: extract_budget_data_def headed_budget_def window_def qualifies_def
        number_of_def notna_def is_total_label_def cell_text_def py_str_def upper_def
        upper_char_def)
  have c: "extract_budget_data L (Some sh) = budget_rule L sh"
    by (simp add: extract_budget_data_def budget_rows_rule)
  show ?thesis using a b c by (simp add: qualifies_def number_of_def notna_def)
qed

end
